theory Spec2Isabelle
  imports Main
begin

unbundle bit_operations_syntax

section \<open>Python values, strings and exceptions\<close>

text \<open>
  The wallet generator of \<^verbatim>\<open>src/cardano_spo_cli/tools/wallet.py\<close> is embedded
  function by function. A Python \<^verbatim>\<open>str\<close> is a \<^typ>\<open>string\<close> whose characters stand
  for the code points below 256; \<^verbatim>\<open>bytes\<close> is a list of integers (each in 0..255), as Python's integers are. Every
  exception the source can raise is a value of \<open>exn\<close>, and a function that can raise
  returns \<open>exn + 'a\<close> with \<open>Inl\<close> for the exception.
\<close>

datatype exn =
    ClickException string
  | KeyError string
  | TypeError string
  | ValueError string
  | FileNotFoundError string
  | JSONDecodeError string

definition is_space :: "char \<Rightarrow> bool" where
  \<comment> \<open>\<^verbatim>\<open>str.isspace\<close> on one character below 256\<close>
  "is_space c =
     (let n = (of_char c :: nat)
      in (9 \<le> n \<and> n \<le> 13) \<or> (28 \<le> n \<and> n \<le> 32) \<or> n = 133 \<or> n = 160)"

definition strip :: "string \<Rightarrow> string" where
  \<comment> \<open>\<^verbatim>\<open>str.strip()\<close>\<close>
  "strip s = rev (dropWhile is_space (rev (dropWhile is_space s)))"

definition startswith :: "string \<Rightarrow> string \<Rightarrow> bool" where
  \<comment> \<open>\<^verbatim>\<open>s.startswith(p)\<close>\<close>
  "startswith p s = (take (length p) s = p)"

definition lower_char :: "char \<Rightarrow> char" where
  "lower_char c =
     (let n = (of_char c :: nat) in if 65 \<le> n \<and> n \<le> 90 then char_of (n + 32) else c)"

definition upper_char :: "char \<Rightarrow> char" where
  "upper_char c =
     (let n = (of_char c :: nat) in if 97 \<le> n \<and> n \<le> 122 then char_of (n - 32) else c)"

definition lower :: "string \<Rightarrow> string" where
  \<comment> \<open>\<^verbatim>\<open>str.lower()\<close>, exact on ASCII\<close>
  "lower s = map lower_char s"

definition upper :: "string \<Rightarrow> string" where
  \<comment> \<open>\<^verbatim>\<open>str.upper()\<close>, exact on ASCII\<close>
  "upper s = map upper_char s"

definition rfind :: "char \<Rightarrow> string \<Rightarrow> int" where
  \<comment> \<open>\<^verbatim>\<open>s.rfind(c)\<close>: the last index of \<open>c\<close>, or -1\<close>
  "rfind c s =
     (if c \<in> set s then int (length s) - 1 - int (length (takeWhile (\<lambda>x. x \<noteq> c) (rev s)))
      else - 1)"

definition find_char :: "char \<Rightarrow> string \<Rightarrow> int" where
  \<comment> \<open>\<^verbatim>\<open>s.find(c)\<close>: the first index of \<open>c\<close>, or -1\<close>
  "find_char c s =
     (if c \<in> set s then int (length (takeWhile (\<lambda>x. x \<noteq> c) s)) else - 1)"

definition hexdigit :: "int \<Rightarrow> char" where
  "hexdigit n = ''0123456789abcdef'' ! nat (n mod 16)"

definition bytes_hex :: "int list \<Rightarrow> string" where
  \<comment> \<open>\<^verbatim>\<open>bytes.hex()\<close>: two lower-case digits per byte\<close>
  "bytes_hex bs = concat (map (\<lambda>b. [hexdigit (b div 16), hexdigit (b mod 16)]) bs)"

definition hexval :: "char \<Rightarrow> int option" where
  "hexval c =
     (let n = (of_char c :: int)
      in if 48 \<le> n \<and> n \<le> 57 then Some (n - 48)
         else if 97 \<le> n \<and> n \<le> 102 then Some (n - 87)
         else if 65 \<le> n \<and> n \<le> 70 then Some (n - 55)
         else None)"

definition is_ascii_space :: "char \<Rightarrow> bool" where
  \<comment> \<open>the ASCII whitespace \<^verbatim>\<open>bytes.fromhex\<close> skips between bytes\<close>
  "is_ascii_space c = (let n = (of_char c :: nat) in (9 \<le> n \<and> n \<le> 13) \<or> n = 32)"

fun fromhex :: "string \<Rightarrow> exn + int list" where
  \<comment> \<open>\<^verbatim>\<open>bytes.fromhex(s)\<close>: pairs of hex digits, whitespace allowed between pairs\<close>
  "fromhex [] = Inr []"
| "fromhex [c] =
     (if is_ascii_space c then Inr []
      else Inl (ValueError ''non-hexadecimal number found in fromhex() arg''))"
| "fromhex (c # d # s) =
     (if is_ascii_space c then fromhex (d # s)
      else (case (hexval c, hexval d) of
              (Some h, Some l) \<Rightarrow>
                (case fromhex s of Inl e \<Rightarrow> Inl e | Inr bs \<Rightarrow> Inr ((16 * h + l) # bs))
            | _ \<Rightarrow> Inl (ValueError ''non-hexadecimal number found in fromhex() arg'')))"

section \<open>The bech32 package\<close>

text \<open>
  \<^verbatim>\<open>wallet.py\<close> imports the third-party package \<^verbatim>\<open>bech32\<close> (line 15), the
  reference implementation of BIP-173 with the limit of 90 characters taken out of
  \<^verbatim>\<open>bech32_decode\<close>, so that strings of any length are decoded. Its functions are
  not part of the repository; they are written out here as the package defines them,
  because what the wallet code does depends on what they return: \<^verbatim>\<open>bech32_decode\<close>
  returns the pair \<^verbatim>\<open>(None, None)\<close> on every failure, \<^verbatim>\<open>decode(hrp, addr)\<close> is
  the segwit address decoder and returns \<^verbatim>\<open>(None, None)\<close> or
  \<^verbatim>\<open>(witver, witprog)\<close>, never \<^verbatim>\<open>None\<close>, and
  \<^verbatim>\<open>encode(hrp, witver, witprog)\<close> takes three arguments.
\<close>

definition CHARSET :: string where
  "CHARSET = ''qpzry9x8gf2tvdw0s3jn54khce6mua7l''"

definition generator :: "int list" where
  "generator = [0x3b6a57b2, 0x26508e6d, 0x1ea119fa, 0x3d4233dd, 0x2a1462b3]"

definition polymod_step :: "int \<Rightarrow> int \<Rightarrow> int" where
  \<comment> \<open>the body of the loop of \<^verbatim>\<open>bech32_polymod\<close>, the inner loop over
      \<^verbatim>\<open>range(5)\<close> included\<close>
  "polymod_step chk v =
     (let top = drop_bit 25 chk;
          chk1 = (push_bit 5 (chk AND 0x1ffffff)) XOR v
      in fold (\<lambda>i c. c XOR (if bit top i then generator ! i else 0)) [0, 1, 2, 3, 4] chk1)"

fun polymod_loop :: "int \<Rightarrow> int list \<Rightarrow> int" where
  "polymod_loop chk [] = chk"
| "polymod_loop chk (v # values) = polymod_loop (polymod_step chk v) values"

definition bech32_polymod :: "int list \<Rightarrow> int" where
  "bech32_polymod values = polymod_loop 1 values"

definition bech32_hrp_expand :: "string \<Rightarrow> int list" where
  "bech32_hrp_expand hrp =
     map (\<lambda>x. drop_bit 5 (of_char x :: int)) hrp @ [0] @ map (\<lambda>x. (of_char x :: int) AND 31) hrp"

definition bech32_verify_checksum :: "string \<Rightarrow> int list \<Rightarrow> bool" where
  "bech32_verify_checksum hrp data = (bech32_polymod (bech32_hrp_expand hrp @ data) = 1)"

definition bech32_decode :: "string \<Rightarrow> string option \<times> int list option" where
  "bech32_decode bech =
     (if list_ex (\<lambda>x. (of_char x :: nat) < 33 \<or> (of_char x :: nat) > 126) bech
         \<or> (lower bech \<noteq> bech \<and> upper bech \<noteq> bech)
      then (None, None)
      else
        let bech = lower bech;
            pos = rfind CHR ''1'' bech
        in if pos < 1 \<or> pos + 7 > int (length bech) then (None, None)
           else if \<not> list_all (\<lambda>x. x \<in> set CHARSET) (drop (nat (pos + 1)) bech)
           then (None, None)
           else
             let hrp = take (nat pos) bech;
                 data = map (\<lambda>x. find_char x CHARSET) (drop (nat (pos + 1)) bech)
             in if \<not> bech32_verify_checksum hrp data then (None, None)
                else (Some hrp, Some (take (length data - 6) data)))"

function convertbits_emit :: "nat \<Rightarrow> int \<Rightarrow> nat \<Rightarrow> int \<Rightarrow> int list \<Rightarrow> nat \<times> int list" where
  \<comment> \<open>the inner \<^verbatim>\<open>while bits >= tobits\<close> of \<^verbatim>\<open>convertbits\<close>; the package calls it
      with \<open>tobits\<close> 5 or 8, and \<open>tobits = 0\<close> (where the Python loop would not end) stops here\<close>
  "convertbits_emit tobits acc bits maxv ret =
     (if 0 < tobits \<and> tobits \<le> bits
      then convertbits_emit tobits acc (bits - tobits) maxv
             (ret @ [(drop_bit (bits - tobits) acc) AND maxv])
      else (bits, ret))"
  by pat_completeness auto
termination
  by (relation "measure (\<lambda>(tobits, acc, bits, maxv, ret). bits)") auto

declare convertbits_emit.simps [simp del]

fun convertbits_loop ::
  "int list \<Rightarrow> nat \<Rightarrow> nat \<Rightarrow> int \<Rightarrow> int \<Rightarrow> int \<Rightarrow> nat \<Rightarrow> int list \<Rightarrow> (int \<times> nat \<times> int list) option"
where
  \<comment> \<open>the \<^verbatim>\<open>for value in data\<close> loop; \<open>None\<close> is its early \<^verbatim>\<open>return None\<close>\<close>
  "convertbits_loop [] frombits tobits maxv max_acc acc bits ret = Some (acc, bits, ret)"
| "convertbits_loop (v # vs) frombits tobits maxv max_acc acc bits ret =
     (if v < 0 \<or> drop_bit frombits v \<noteq> 0 then None
      else
        (case convertbits_emit tobits (((push_bit frombits acc) OR v) AND max_acc)
                (bits + frombits) maxv ret of
           (bits', ret') \<Rightarrow>
             convertbits_loop vs frombits tobits maxv max_acc
               (((push_bit frombits acc) OR v) AND max_acc) bits' ret'))"

definition convertbits :: "int list \<Rightarrow> nat \<Rightarrow> nat \<Rightarrow> bool \<Rightarrow> int list option" where
  "convertbits data frombits tobits pad =
     (let maxv = push_bit tobits 1 - 1;
          max_acc = push_bit (frombits + tobits - 1) 1 - 1
      in (case convertbits_loop data frombits tobits maxv max_acc 0 0 [] of
            None \<Rightarrow> None
          | Some (acc, bits, ret) \<Rightarrow>
              if pad then
                (if bits \<noteq> 0 then Some (ret @ [(push_bit (tobits - bits) acc) AND maxv])
                 else Some ret)
              else if bits \<ge> frombits \<or> ((push_bit (tobits - bits) acc) AND maxv) \<noteq> 0
              then None
              else Some ret))"

definition decode :: "string \<Rightarrow> string \<Rightarrow> int option \<times> int list option" where
  \<comment> \<open>\<^verbatim>\<open>bech32.decode(hrp, addr)\<close>, the segwit address decoder; \<open>hrpgot = hrp\<close> is
      only possible after a successful \<open>bech32_decode\<close>, whose data is then a list, and
      \<open>data[0]\<close> is read only after \<open>data[1:]\<close> gave at least two bytes\<close>
  "decode hrp addr =
     (case bech32_decode addr of
        (hrpgot, data) \<Rightarrow>
          if hrpgot \<noteq> Some hrp then (None, None)
          else
            (case data of
               None \<Rightarrow> (None, None)
             | Some d \<Rightarrow>
                 (case convertbits (drop 1 d) 5 8 False of
                    None \<Rightarrow> (None, None)
                  | Some decoded \<Rightarrow>
                      if length decoded < 2 \<or> length decoded > 40 then (None, None)
                      else
                        (case d of
                           [] \<Rightarrow> (None, None)
                         | d0 # _ \<Rightarrow>
                             if d0 > 16 then (None, None)
                             else if d0 = 0 \<and> length decoded \<noteq> 20 \<and> length decoded \<noteq> 32
                             then (None, None)
                             else (Some d0, Some decoded)))))"


section \<open>The outside world: files, external tools, randomness\<close>

text \<open>
  The generator talks to the outside through \<^verbatim>\<open>subprocess.run\<close> (the tools
  \<^verbatim>\<open>cardano-address\<close> and \<^verbatim>\<open>cardano-cli\<close>), the \<^verbatim>\<open>mnemonic\<close>,
  \<^verbatim>\<open>hashlib\<close> and \<^verbatim>\<open>json\<close> libraries, and the file system. None of these is
  code of the repository, so they are parameters (\<open>env\<close>): any behaviour of the tools,
  deterministic or not, is an instance. Their state is the component \<open>outside\<close> of the
  world; \<open>calls\<close> records every command line handed to \<^verbatim>\<open>subprocess.run\<close> with
  its standard input, in order. Directories are not modelled (\<^verbatim>\<open>mkdir\<close> is a no-op),
  nor is console output (\<^verbatim>\<open>click.echo\<close>).
\<close>

datatype json = JObject "(string \<times> string) list" | JOther
  \<comment> \<open>a parsed JSON document: an object with string members, or anything else\<close>

record completed =
  returncode :: int
  stdout :: string
  stderr :: string

record 'x world =
  files :: "string \<rightharpoonup> string"
  modes :: "string \<rightharpoonup> nat"
  calls :: "(string list \<times> string option) list"
  outside :: 'x

record 'x env =
  subprocess_run :: "string list \<Rightarrow> string \<Rightarrow> 'x \<Rightarrow> completed \<times> 'x"
    \<comment> \<open>\<^verbatim>\<open>subprocess.run(cmd, input=..., capture_output=True, text=True)\<close>: a filter
        from standard input to standard output\<close>
  cli_run :: "string list \<Rightarrow> (string \<rightharpoonup> string) \<Rightarrow> 'x \<Rightarrow> completed \<times> (string \<rightharpoonup> string) \<times> 'x"
    \<comment> \<open>\<^verbatim>\<open>subprocess.run(cmd, capture_output=True, text=True)\<close> of a
        \<^verbatim>\<open>cardano-cli\<close> command working on the files of the temporary directory\<close>
  mnemo_generate :: "nat \<Rightarrow> 'x \<Rightarrow> string \<times> 'x"
    \<comment> \<open>\<^verbatim>\<open>Mnemonic("english").generate(strength=n)\<close>\<close>
  sha256 :: "string \<Rightarrow> int list"
    \<comment> \<open>\<^verbatim>\<open>hashlib.sha256(s.encode()).digest()\<close>\<close>
  json_loads :: "string \<Rightarrow> exn + json"
    \<comment> \<open>\<^verbatim>\<open>json.loads(content)\<close>\<close>
  json_dumps :: "(string \<times> string) list \<Rightarrow> string"
    \<comment> \<open>\<^verbatim>\<open>json.dumps({...}, indent=2)\<close> of a dictionary of strings, keys in order\<close>
  temp_dir :: string
    \<comment> \<open>the path \<^verbatim>\<open>tempfile.TemporaryDirectory()\<close> yields\<close>

type_synonym ('a, 'x) io = "'x world \<Rightarrow> (exn + 'a) \<times> 'x world"

definition io_return :: "'a \<Rightarrow> ('a, 'x) io" where
  "io_return a = (\<lambda>w. (Inr a, w))"

definition io_raise :: "exn \<Rightarrow> ('a, 'x) io" where
  "io_raise e = (\<lambda>w. (Inl e, w))"

definition io_bind :: "('a, 'x) io \<Rightarrow> ('a \<Rightarrow> ('b, 'x) io) \<Rightarrow> ('b, 'x) io" where
  \<comment> \<open>sequencing: an exception of the first statement ends the function\<close>
  "io_bind m f = (\<lambda>w. case m w of (Inl e, w') \<Rightarrow> (Inl e, w') | (Inr a, w') \<Rightarrow> f a w')"

definition path_join :: "string \<Rightarrow> string \<Rightarrow> string" where
  \<comment> \<open>\<^verbatim>\<open>Path(a) / b\<close>, up to \<^verbatim>\<open>pathlib\<close>'s normalisation of repeated slashes\<close>
  "path_join a b = (if startswith ''/'' b then b else if b = [] then a else a @ ''/'' @ b)"

section \<open>The wallet generator\<close>

record CardanoWalletGenerator =
  ticker :: string
  home_dir :: string
  tools :: "(string \<times> string) list"
  shared_mnemonic_file :: string

definition new_generator :: "string \<Rightarrow> (string \<times> string) list \<Rightarrow> string \<Rightarrow> exn + CardanoWalletGenerator" where
  \<comment> \<open>\<^verbatim>\<open>__init__\<close> (lines 24-38): \<open>home\<close> is \<^verbatim>\<open>Path.home()\<close> and \<open>tls\<close> what
      \<^verbatim>\<open>verify_tools()\<close> returned; the probing of \<^verbatim>\<open>cardano-cli\<close> (lines 40-81),
      which may drop that one entry, is left to the caller of the model\<close>
  "new_generator home tls tk =
     (let t = upper tk;
          h = path_join home (''.CSPO_'' @ t)
      in if tls = []
         then Inl (ClickException
                ''Real Cardano tools not available. Use --simple flag for simplified mode.'')
         else Inr \<lparr>ticker = t, home_dir = h, tools = tls,
                   shared_mnemonic_file = path_join h (t @ ''-shared.mnemonic.txt'')\<rparr>)"

definition tool_path :: "CardanoWalletGenerator \<Rightarrow> string \<Rightarrow> (string, 'x) io" where
  \<comment> \<open>\<^verbatim>\<open>str(self.tools[name])\<close>\<close>
  "tool_path self name =
     (case map_of (tools self) name of
        None \<Rightarrow> io_raise (KeyError name)
      | Some p \<Rightarrow> io_return p)"

definition run :: "'x env \<Rightarrow> string list \<Rightarrow> string \<Rightarrow> (completed, 'x) io" where
  \<comment> \<open>\<^verbatim>\<open>subprocess.run(cmd, input=inp, capture_output=True, text=True)\<close>\<close>
  "run E cmd inp =
     (\<lambda>w. case subprocess_run E cmd inp (outside w) of
            (result, x') \<Rightarrow>
              (Inr result, w\<lparr>calls := calls w @ [(cmd, Some inp)], outside := x'\<rparr>))"

definition get_or_create_shared_mnemonic :: "'x env \<Rightarrow> CardanoWalletGenerator \<Rightarrow> (string, 'x) io" where
  \<comment> \<open>lines 83-97\<close>
  "get_or_create_shared_mnemonic E self =
     (\<lambda>w. case files w (shared_mnemonic_file self) of
            Some content \<Rightarrow> (Inr (strip content), w)
          | None \<Rightarrow>
              (case mnemo_generate E 256 (outside w) of
                 (mnemonic, x') \<Rightarrow>
                   (Inr mnemonic,
                    w\<lparr>files := (files w)(shared_mnemonic_file self \<mapsto> mnemonic),
                      modes := (modes w)(shared_mnemonic_file self \<mapsto> 384),
                      outside := x'\<rparr>)))"

definition generate_mnemonic :: "'x env \<Rightarrow> (string, 'x) io" where
  \<comment> \<open>lines 99-101\<close>
  "generate_mnemonic E =
     (\<lambda>w. case mnemo_generate E 256 (outside w) of
            (mnemonic, x') \<Rightarrow> (Inr mnemonic, w\<lparr>outside := x'\<rparr>))"

definition mnemonic_to_root_key :: "'x env \<Rightarrow> CardanoWalletGenerator \<Rightarrow> string \<Rightarrow> (string, 'x) io" where
  \<comment> \<open>lines 103-114\<close>
  "mnemonic_to_root_key E self mnemonic =
     io_bind (tool_path self ''cardano-address'') (\<lambda>t.
     io_bind (run E [t, ''key'', ''from-recovery-phrase'', ''Shelley''] mnemonic) (\<lambda>result.
       if returncode result \<noteq> 0
       then io_raise (ClickException (''Error generating root key: '' @ stderr result))
       else io_return (strip (stdout result))))"

definition derive_child ::
  "'x env \<Rightarrow> CardanoWalletGenerator \<Rightarrow> string \<Rightarrow> string \<Rightarrow> string \<Rightarrow> string \<Rightarrow> (string \<times> string, 'x) io"
where
  \<comment> \<open>the body the eight \<^verbatim>\<open>derive_*_key\<close> methods share word for word: \<^verbatim>\<open>key child
      <path>\<close> on the root key, then \<^verbatim>\<open>key public --with-chain-code\<close> on the child; they
      differ in the path and in the two error messages\<close>
  "derive_child E self path msg_child msg_public root_key =
     io_bind (tool_path self ''cardano-address'') (\<lambda>t.
     io_bind (run E [t, ''key'', ''child'', path] root_key) (\<lambda>result.
       if returncode result \<noteq> 0
       then io_raise (ClickException (msg_child @ stderr result))
       else
         io_bind (tool_path self ''cardano-address'') (\<lambda>t'.
         io_bind (run E [t', ''key'', ''public'', ''--with-chain-code''] (strip (stdout result)))
           (\<lambda>result'.
             if returncode result' \<noteq> 0
             then io_raise (ClickException (msg_public @ stderr result'))
             else io_return (strip (stdout result), strip (stdout result'))))))"

definition derive_payment_key :: "'x env \<Rightarrow> CardanoWalletGenerator \<Rightarrow> string \<Rightarrow> string \<Rightarrow> (string \<times> string, 'x) io" where
  \<comment> \<open>lines 116-132; \<open>purpose\<close> is not used\<close>
  "derive_payment_key E self root_key purpose =
     derive_child E self ''1852H/1815H/0H/0/0''
       ''Error deriving payment key: '' ''Error generating public key: '' root_key"

definition derive_staking_key :: "'x env \<Rightarrow> CardanoWalletGenerator \<Rightarrow> string \<Rightarrow> (string \<times> string, 'x) io" where
  \<comment> \<open>lines 134-152\<close>
  "derive_staking_key E self root_key =
     derive_child E self ''1852H/1815H/0H/2/0''
       ''Error deriving staking key: '' ''Error generating staking public key: '' root_key"

definition derive_cold_key :: "'x env \<Rightarrow> CardanoWalletGenerator \<Rightarrow> string \<Rightarrow> (string \<times> string, 'x) io" where
  \<comment> \<open>lines 605-633\<close>
  "derive_cold_key E self root_key =
     derive_child E self ''1852H/1815H/0H/0/0''
       ''Error deriving cold key: '' ''Error getting cold public key: '' root_key"

definition derive_hot_key :: "'x env \<Rightarrow> CardanoWalletGenerator \<Rightarrow> string \<Rightarrow> (string \<times> string, 'x) io" where
  \<comment> \<open>lines 635-661\<close>
  "derive_hot_key E self root_key =
     derive_child E self ''1852H/1815H/0H/2/0''
       ''Error deriving hot key: '' ''Error getting hot public key: '' root_key"

definition derive_drep_key :: "'x env \<Rightarrow> CardanoWalletGenerator \<Rightarrow> string \<Rightarrow> (string \<times> string, 'x) io" where
  \<comment> \<open>lines 663-691\<close>
  "derive_drep_key E self root_key =
     derive_child E self ''1852H/1815H/0H/3/0''
       ''Error deriving DRep key: '' ''Error getting DRep public key: '' root_key"

definition derive_ms_payment_key :: "'x env \<Rightarrow> CardanoWalletGenerator \<Rightarrow> string \<Rightarrow> (string \<times> string, 'x) io" where
  \<comment> \<open>lines 693-725\<close>
  "derive_ms_payment_key E self root_key =
     derive_child E self ''1852H/1815H/0H/4/0''
       ''Error deriving MS payment key: '' ''Error getting MS payment public key: '' root_key"

definition derive_ms_stake_key :: "'x env \<Rightarrow> CardanoWalletGenerator \<Rightarrow> string \<Rightarrow> (string \<times> string, 'x) io" where
  \<comment> \<open>lines 727-757\<close>
  "derive_ms_stake_key E self root_key =
     derive_child E self ''1852H/1815H/0H/5/0''
       ''Error deriving MS stake key: '' ''Error getting MS stake public key: '' root_key"

definition derive_ms_drep_key :: "'x env \<Rightarrow> CardanoWalletGenerator \<Rightarrow> string \<Rightarrow> (string \<times> string, 'x) io" where
  \<comment> \<open>lines 759-787\<close>
  "derive_ms_drep_key E self root_key =
     derive_child E self ''1852H/1815H/0H/6/0''
       ''Error deriving MS DRep key: '' ''Error getting MS DRep public key: '' root_key"

subsection \<open>Addresses\<close>

definition network_tags :: "(string \<times> string) list" where
  \<comment> \<open>the dictionary written out at lines 159, 219, 256 and 794\<close>
  "network_tags = [(''mainnet'', ''1''), (''testnet'', ''0''), (''preview'', ''0''), (''preprod'', ''0'')]"

definition network_tag :: "string \<Rightarrow> string" where
  \<comment> \<open>\<^verbatim>\<open>network_tags.get(network, "1")\<close>\<close>
  "network_tag network = (case map_of network_tags network of None \<Rightarrow> ''1'' | Some t \<Rightarrow> t)"

definition generate_payment_address ::
  "'x env \<Rightarrow> CardanoWalletGenerator \<Rightarrow> string \<Rightarrow> string \<Rightarrow> string \<Rightarrow> (string, 'x) io"
where
  \<comment> \<open>lines 154-212: the base address, in three tool calls\<close>
  "generate_payment_address E self payment_vkey staking_vkey network =
     io_bind (tool_path self ''cardano-address'') (\<lambda>t.
     io_bind (run E [t, ''address'', ''payment'', ''--network-tag'', network_tag network]
                payment_vkey) (\<lambda>payment_result.
       if returncode payment_result \<noteq> 0
       then io_raise (ClickException
              (''Error generating payment address: '' @ stderr payment_result))
       else
         io_bind (tool_path self ''cardano-address'') (\<lambda>t1.
         io_bind (run E [t1, ''address'', ''stake'', ''--network-tag'', network_tag network]
                    staking_vkey) (\<lambda>stake_result.
           if returncode stake_result \<noteq> 0
           then io_raise (ClickException
                  (''Error generating staking address: '' @ stderr stake_result))
           else
             io_bind (tool_path self ''cardano-address'') (\<lambda>t2.
             io_bind (run E [t2, ''address'', ''delegation'', staking_vkey]
                        (strip (stdout payment_result))) (\<lambda>base_result.
               if returncode base_result \<noteq> 0
               then io_raise (ClickException
                      (''Error generating base address: '' @ stderr base_result))
               else io_return (strip (stdout base_result))))))))"

definition generate_staking_address ::
  "'x env \<Rightarrow> CardanoWalletGenerator \<Rightarrow> string \<Rightarrow> string \<Rightarrow> (string, 'x) io"
where
  \<comment> \<open>lines 214-234\<close>
  "generate_staking_address E self staking_vkey network =
     io_bind (tool_path self ''cardano-address'') (\<lambda>t.
     io_bind (run E [t, ''address'', ''stake'', ''--network-tag'', network_tag network]
                staking_vkey) (\<lambda>result.
       if returncode result \<noteq> 0
       then io_raise (ClickException (''Error generating staking address: '' @ stderr result))
       else io_return (strip (stdout result))))"

definition valid_prefixes :: "string list" where
  "valid_prefixes = [''addr'', ''addr_test'', ''stake'', ''stake_test'']"

definition validate_address_try :: "string \<Rightarrow> exn + bool" where
  \<comment> \<open>the \<^verbatim>\<open>try\<close> block of lines 238-246\<close>
  "validate_address_try address =
     (case bech32_decode address of
        (hrp, data) \<Rightarrow>
          (case hrp of
             None \<Rightarrow> Inr False
           | Some h \<Rightarrow>
               (case data of
                  None \<Rightarrow> Inr False
                | Some d \<Rightarrow> Inr (h \<in> set valid_prefixes))))"

definition validate_address :: "string \<Rightarrow> bool" where
  \<comment> \<open>lines 236-248: \<^verbatim>\<open>except Exception: return False\<close>\<close>
  "validate_address address =
     (case validate_address_try address of Inl e \<Rightarrow> False | Inr b \<Rightarrow> b)"

definition generate_address_candidate ::
  "'x env \<Rightarrow> CardanoWalletGenerator \<Rightarrow> string \<Rightarrow> string \<Rightarrow> string \<Rightarrow> (string, 'x) io"
where
  \<comment> \<open>lines 250-308: the same three tool calls as \<open>generate_payment_address\<close>, written
      out a second time in the source\<close>
  "generate_address_candidate E self payment_vkey staking_vkey network =
     io_bind (tool_path self ''cardano-address'') (\<lambda>t.
     io_bind (run E [t, ''address'', ''payment'', ''--network-tag'', network_tag network]
                payment_vkey) (\<lambda>payment_result.
       if returncode payment_result \<noteq> 0
       then io_raise (ClickException
              (''Error generating payment address: '' @ stderr payment_result))
       else
         io_bind (tool_path self ''cardano-address'') (\<lambda>t1.
         io_bind (run E [t1, ''address'', ''stake'', ''--network-tag'', network_tag network]
                    staking_vkey) (\<lambda>stake_result.
           if returncode stake_result \<noteq> 0
           then io_raise (ClickException
                  (''Error generating staking address: '' @ stderr stake_result))
           else
             io_bind (tool_path self ''cardano-address'') (\<lambda>t2.
             io_bind (run E [t2, ''address'', ''delegation'', staking_vkey]
                        (strip (stdout payment_result))) (\<lambda>base_result.
               if returncode base_result \<noteq> 0
               then io_raise (ClickException
                      (''Error generating base address: '' @ stderr base_result))
               else io_return (strip (stdout base_result))))))))"

definition verify_address_candidates :: "string \<Rightarrow> string \<Rightarrow> bool" where
  \<comment> \<open>lines 310-312\<close>
  "verify_address_candidates base_addr candidate_addr = (base_addr = candidate_addr)"

definition generate_payment_only_address ::
  "'x env \<Rightarrow> CardanoWalletGenerator \<Rightarrow> string \<Rightarrow> string \<Rightarrow> (string, 'x) io"
where
  \<comment> \<open>lines 789-809\<close>
  "generate_payment_only_address E self payment_vkey network =
     io_bind (tool_path self ''cardano-address'') (\<lambda>t.
     io_bind (run E [t, ''address'', ''payment'', ''--network-tag'', network_tag network]
                payment_vkey) (\<lambda>result.
       if returncode result \<noteq> 0
       then io_raise (ClickException (''Error generating payment address: '' @ stderr result))
       else io_return (strip (stdout result))))"

subsection \<open>Persisting a wallet\<close>

definition write_key :: "string \<Rightarrow> (string \<rightharpoonup> string) \<Rightarrow> string \<Rightarrow> (unit, 'x) io" where
  \<comment> \<open>\<^verbatim>\<open>with open(path, "w") as f: f.write(wallet_data[key])\<close>: the file is created
      (empty) before the dictionary is read, so a missing key leaves an empty file behind\<close>
  "write_key path wallet_data key =
     (\<lambda>w. case wallet_data key of
            None \<Rightarrow> (Inl (KeyError key), w\<lparr>files := (files w)(path \<mapsto> [])\<rparr>)
          | Some v \<Rightarrow> (Inr (), w\<lparr>files := (files w)(path \<mapsto> v)\<rparr>))"

definition chmod :: "string \<Rightarrow> nat \<Rightarrow> (unit, 'x) io" where
  "chmod path mode = (\<lambda>w. (Inr (), w\<lparr>modes := (modes w)(path \<mapsto> mode)\<rparr>))"

definition wallet_file :: "CardanoWalletGenerator \<Rightarrow> string \<Rightarrow> string \<Rightarrow> string" where
  \<comment> \<open>\<^verbatim>\<open>wallet_dir / f"{self.ticker}-{purpose}.<suffix>"\<close> with
      \<^verbatim>\<open>wallet_dir = self.home_dir / purpose\<close>\<close>
  "wallet_file self purpose suffix =
     path_join (path_join (home_dir self) purpose) (ticker self @ ''-'' @ purpose @ suffix)"

definition save_wallet_files ::
  "CardanoWalletGenerator \<Rightarrow> string \<Rightarrow> (string \<rightharpoonup> string) \<Rightarrow> (string, 'x) io"
where
  \<comment> \<open>lines 314-372\<close>
  "save_wallet_files self purpose wallet_data =
     io_bind (write_key (wallet_file self purpose ''.base_addr'') wallet_data ''base_addr'') (\<lambda>_.
     io_bind (write_key (wallet_file self purpose ''.base_addr.candidate'') wallet_data
                ''base_addr_candidate'') (\<lambda>_.
     io_bind (write_key (wallet_file self purpose ''.reward_addr'') wallet_data ''reward_addr'') (\<lambda>_.
     io_bind (write_key (wallet_file self purpose ''.reward_addr.candidate'') wallet_data
                ''reward_addr_candidate'') (\<lambda>_.
     io_bind (write_key (wallet_file self purpose ''.staking_skey'') wallet_data ''staking_skey'') (\<lambda>_.
     io_bind (write_key (wallet_file self purpose ''.staking_vkey'') wallet_data ''staking_vkey'') (\<lambda>_.
     io_bind (write_key (wallet_file self purpose ''.mnemonic.txt'') wallet_data ''mnemonic'') (\<lambda>_.
     io_bind (chmod (wallet_file self purpose ''.staking_skey'') 384) (\<lambda>_.
     io_bind (chmod (wallet_file self purpose ''.mnemonic.txt'') 384) (\<lambda>_.
     io_return (path_join (home_dir self) purpose))))))))))"

subsection \<open>The generate flow\<close>

definition generate_wallet ::
  "'x env \<Rightarrow> CardanoWalletGenerator \<Rightarrow> string \<Rightarrow> string \<Rightarrow> (string \<rightharpoonup> string, 'x) io"
where
  \<comment> \<open>lines 510-579\<close>
  "generate_wallet E self purpose network =
     io_bind (get_or_create_shared_mnemonic E self) (\<lambda>mnemonic.
     io_bind (mnemonic_to_root_key E self mnemonic) (\<lambda>root_key.
     io_bind (derive_payment_key E self root_key purpose) (\<lambda>(payment_skey, payment_vkey).
     io_bind (derive_staking_key E self root_key) (\<lambda>(staking_skey, staking_vkey).
     io_bind (generate_payment_address E self payment_vkey staking_vkey network) (\<lambda>base_addr.
     io_bind (generate_staking_address E self staking_vkey network) (\<lambda>reward_addr.
     io_bind (generate_address_candidate E self payment_vkey staking_vkey network)
       (\<lambda>base_addr_candidate.
     io_bind (generate_staking_address E self staking_vkey network) (\<lambda>reward_addr_candidate.
       if \<not> verify_address_candidates base_addr base_addr_candidate
       then io_raise (ClickException ''Address verification failed: base address mismatch'')
       else if \<not> verify_address_candidates reward_addr reward_addr_candidate
       then io_raise (ClickException ''Address verification failed: reward address mismatch'')
       else if \<not> validate_address base_addr
       then io_raise (ClickException ''Invalid base address generated'')
       else if \<not> validate_address reward_addr
       then io_raise (ClickException ''Invalid reward address generated'')
       else
         io_bind (save_wallet_files self purpose
                    [''base_addr'' \<mapsto> base_addr,
                     ''base_addr_candidate'' \<mapsto> base_addr_candidate,
                     ''reward_addr'' \<mapsto> reward_addr,
                     ''reward_addr_candidate'' \<mapsto> reward_addr_candidate,
                     ''staking_skey'' \<mapsto> staking_skey,
                     ''staking_vkey'' \<mapsto> staking_vkey,
                     ''mnemonic'' \<mapsto> mnemonic]) (\<lambda>wallet_dir.
         io_return
           [''base_addr'' \<mapsto> base_addr,
            ''base_addr_candidate'' \<mapsto> base_addr_candidate,
            ''reward_addr'' \<mapsto> reward_addr,
            ''reward_addr_candidate'' \<mapsto> reward_addr_candidate,
            ''staking_skey'' \<mapsto> staking_skey,
            ''staking_vkey'' \<mapsto> staking_vkey,
            ''mnemonic'' \<mapsto> mnemonic])))))))))"

subsection \<open>The import flow\<close>

definition subscript :: "json \<Rightarrow> string \<Rightarrow> exn + string" where
  \<comment> \<open>\<^verbatim>\<open>doc[key]\<close> on a parsed document\<close>
  "subscript doc key =
     (case doc of
        JObject kvs \<Rightarrow> (case map_of kvs key of None \<Rightarrow> Inl (KeyError key) | Some v \<Rightarrow> Inr v)
      | JOther \<Rightarrow> Inl (TypeError ''indices must be integers''))"

definition import_key ::
  "'x env \<Rightarrow> string option \<Rightarrow> string \<Rightarrow> (string \<rightharpoonup> string) \<Rightarrow> (string \<rightharpoonup> string, 'x) io"
where
  \<comment> \<open>one of the four blocks of \<open>import_existing_keys\<close>:
      \<^verbatim>\<open>if path and Path(path).exists(): wallet_data[key] = json.loads(f.read())["cborHex"]\<close>\<close>
  "import_key E path key wallet_data =
     (\<lambda>w. case path of
            None \<Rightarrow> (Inr wallet_data, w)
          | Some p \<Rightarrow>
              if p = [] then (Inr wallet_data, w)
              else
                (case files w p of
                   None \<Rightarrow> (Inr wallet_data, w)
                 | Some content \<Rightarrow>
                     (case json_loads E content of
                        Inl e \<Rightarrow> (Inl e, w)
                      | Inr doc \<Rightarrow>
                          (case subscript doc ''cborHex'' of
                             Inl e \<Rightarrow> (Inl e, w)
                           | Inr c \<Rightarrow> (Inr (wallet_data(key \<mapsto> c)), w)))))"

definition import_existing_keys ::
  "'x env \<Rightarrow> string \<Rightarrow> string option \<Rightarrow> string option \<Rightarrow> string option \<Rightarrow> string option
     \<Rightarrow> (string \<rightharpoonup> string, 'x) io"
where
  \<comment> \<open>lines 374-417\<close>
  "import_existing_keys E purpose payment_vkey_path payment_skey_path stake_vkey_path stake_skey_path =
     io_bind (import_key E payment_vkey_path ''payment_vkey'' Map.empty) (\<lambda>d1.
     io_bind (import_key E payment_skey_path ''payment_skey'' d1) (\<lambda>d2.
     io_bind (import_key E stake_vkey_path ''staking_vkey'' d2) (\<lambda>d3.
     io_bind (import_key E stake_skey_path ''staking_skey'' d3) (\<lambda>d4.
     io_return d4))))"

definition encode_two_arguments :: "string \<Rightarrow> int list \<Rightarrow> exn + string" where
  \<comment> \<open>\<^verbatim>\<open>bech32.encode(prefix, key_data)\<close> as line 501 calls it: the package's
      \<^verbatim>\<open>encode(hrp, witver, witprog)\<close> has three required parameters, so the call
      raises before the package runs\<close>
  "encode_two_arguments prefix key_data =
     Inl (TypeError ''encode() missing 1 required positional argument: witprog'')"

definition cbor_hex_to_bech32 :: "string \<Rightarrow> string \<Rightarrow> string" where
  \<comment> \<open>lines 491-508; the \<^verbatim>\<open>except\<close> branch tells by \<^verbatim>\<open>"key_data" in locals()\<close>
      whether \<^verbatim>\<open>bytes.fromhex\<close> had succeeded\<close>
  "cbor_hex_to_bech32 cbor_hex prefix =
     (case (if startswith ''58'' cbor_hex then fromhex (drop 4 cbor_hex) else fromhex cbor_hex) of
        Inl e \<Rightarrow> prefix @ ''1placeholder''
      | Inr key_data \<Rightarrow>
          (case encode_two_arguments prefix key_data of
             Inr r \<Rightarrow> r
           | Inl e \<Rightarrow> prefix @ ''1'' @ take 56 (bytes_hex key_data)))"

definition lookup :: "(string \<rightharpoonup> string) \<Rightarrow> string \<Rightarrow> (string, 'x) io" where
  \<comment> \<open>\<^verbatim>\<open>d[key]\<close>\<close>
  "lookup d key = (case d key of None \<Rightarrow> io_raise (KeyError key) | Some v \<Rightarrow> io_return v)"

definition get_default :: "(string \<rightharpoonup> string) \<Rightarrow> string \<Rightarrow> string \<Rightarrow> string" where
  \<comment> \<open>\<^verbatim>\<open>d.get(key, default)\<close>\<close>
  "get_default d key dflt = (case d key of None \<Rightarrow> dflt | Some v \<Rightarrow> v)"

definition generate_wallet_with_import ::
  "'x env \<Rightarrow> CardanoWalletGenerator \<Rightarrow> string \<Rightarrow> string \<Rightarrow> string option \<Rightarrow> string option
     \<Rightarrow> string option \<Rightarrow> string option \<Rightarrow> (string \<rightharpoonup> string, 'x) io"
where
  \<comment> \<open>lines 419-489\<close>
  "generate_wallet_with_import E self purpose network payment_vkey_path payment_skey_path
       stake_vkey_path stake_skey_path =
     io_bind (import_existing_keys E purpose payment_vkey_path payment_skey_path
                stake_vkey_path stake_skey_path) (\<lambda>imported_keys.
       if imported_keys = Map.empty
       then io_raise (ClickException ''No valid keys provided for import'')
       else
         io_bind (lookup imported_keys ''payment_vkey'') (\<lambda>pv.
         io_bind (lookup imported_keys ''staking_vkey'') (\<lambda>sv.
         io_bind (generate_payment_address E self (cbor_hex_to_bech32 pv ''addr_vk'')
                    (cbor_hex_to_bech32 sv ''stake_vk'') network) (\<lambda>base_addr.
         io_bind (generate_staking_address E self (cbor_hex_to_bech32 sv ''stake_vk'') network)
           (\<lambda>reward_addr.
           if \<not> validate_address base_addr
           then io_raise (ClickException ''Invalid base address generated from imported keys'')
           else if \<not> validate_address reward_addr
           then io_raise (ClickException ''Invalid reward address generated from imported keys'')
           else
             io_bind (save_wallet_files self purpose
                        [''base_addr'' \<mapsto> base_addr,
                         ''reward_addr'' \<mapsto> reward_addr,
                         ''payment_skey'' \<mapsto> get_default imported_keys ''payment_skey'' [],
                         ''payment_vkey'' \<mapsto> get_default imported_keys ''payment_vkey'' [],
                         ''staking_skey'' \<mapsto> get_default imported_keys ''staking_skey'' [],
                         ''staking_vkey'' \<mapsto> get_default imported_keys ''staking_vkey'' []])
               (\<lambda>wallet_dir.
             io_return
               [''base_addr'' \<mapsto> base_addr,
                ''reward_addr'' \<mapsto> reward_addr,
                ''payment_skey'' \<mapsto> get_default imported_keys ''payment_skey'' [],
                ''payment_vkey'' \<mapsto> get_default imported_keys ''payment_vkey'' [],
                ''staking_skey'' \<mapsto> get_default imported_keys ''staking_skey'' [],
                ''staking_vkey'' \<mapsto> get_default imported_keys ''staking_vkey'' []]))))))"

subsection \<open>Credential hashes and key files\<close>

definition key_prefixes :: "string list" where
  "key_prefixes = [''addr_vkh'', ''stake_vkh'', ''addr_vk'', ''stake_vk'']"

fun credential_hash_prefixes :: "string list \<Rightarrow> string \<Rightarrow> exn + string option" where
  \<comment> \<open>the \<^verbatim>\<open>for prefix in [...]\<close> loop of lines 933-937. \<open>Inr (Some r)\<close> is
      \<^verbatim>\<open>return r\<close>, \<open>Inr None\<close> the end of the loop without a return. The value of
      \<^verbatim>\<open>bech32.decode\<close> is always a pair, which is \<open>Some\<close> pair for the test
      \<^verbatim>\<open>decoded is not None\<close>; \<^verbatim>\<open>bytes(decoded[1])\<close> raises on \<^verbatim>\<open>(None, None)\<close>\<close>
  "credential_hash_prefixes [] key_data = Inr None"
| "credential_hash_prefixes (prefix # rest) key_data =
     (case Some (decode prefix key_data) of
        None \<Rightarrow> credential_hash_prefixes rest key_data
      | Some decoded \<Rightarrow>
          (case snd decoded of
             None \<Rightarrow> Inl (TypeError ''cannot convert NoneType object to bytes'')
           | Some key_bytes \<Rightarrow> Inr (Some (bytes_hex (take 28 key_bytes)))))"

definition credential_hash_fallback :: "'x env \<Rightarrow> string \<Rightarrow> string" where
  \<comment> \<open>\<^verbatim>\<open>hashlib.sha256(key_data.encode()).digest()[:28].hex()\<close>\<close>
  "credential_hash_fallback E key_data = bytes_hex (take 28 (sha256 E key_data))"

definition generate_proper_credential_hash_try :: "'x env \<Rightarrow> string \<Rightarrow> exn + string" where
  \<comment> \<open>the \<^verbatim>\<open>try\<close> block of lines 927-953\<close>
  "generate_proper_credential_hash_try E key_data =
     (if length key_data = 56 then Inr key_data
      else
        (case credential_hash_prefixes key_prefixes key_data of
           Inl e \<Rightarrow> Inl e
         | Inr (Some r) \<Rightarrow> Inr r
         | Inr None \<Rightarrow>
             if startswith ''58'' key_data
             then (case fromhex (drop 4 key_data) of
                     Inl e \<Rightarrow> Inl e
                   | Inr key_bytes \<Rightarrow> Inr (bytes_hex (take 28 key_bytes)))
             else if length key_data \<ge> 56 then Inr (take 56 key_data)
             else Inr (credential_hash_fallback E key_data)))"

definition generate_proper_credential_hash :: "'x env \<Rightarrow> string \<Rightarrow> string" where
  \<comment> \<open>lines 925-959: \<^verbatim>\<open>except Exception\<close> falls back to the SHA-256 hash\<close>
  "generate_proper_credential_hash E key_data =
     (case generate_proper_credential_hash_try E key_data of
        Inr r \<Rightarrow> r
      | Inl e \<Rightarrow> credential_hash_fallback E key_data)"

function hex_nat :: "nat \<Rightarrow> string" where
  \<comment> \<open>\<^verbatim>\<open>f"{n:x}"\<close>\<close>
  "hex_nat n =
     (if n < 16 then [hexdigit (int n)] else hex_nat (n div 16) @ [hexdigit (int (n mod 16))])"
  by pat_completeness auto
termination
  by (relation "measure (\<lambda>n. n)") auto

declare hex_nat.simps [simp del]

definition format_02x :: "nat \<Rightarrow> string" where
  \<comment> \<open>\<^verbatim>\<open>f"{n:02x}"\<close>\<close>
  "format_02x n = (if length (hex_nat n) < 2 then ''0'' @ hex_nat n else hex_nat n)"

fun cbor_hex_prefixes :: "string list \<Rightarrow> string \<Rightarrow> exn + string option" where
  \<comment> \<open>the loop of lines 906-910, read as \<open>credential_hash_prefixes\<close> is\<close>
  "cbor_hex_prefixes [] cbor_hex = Inr None"
| "cbor_hex_prefixes (prefix # rest) cbor_hex =
     (case Some (decode prefix cbor_hex) of
        None \<Rightarrow> cbor_hex_prefixes rest cbor_hex
      | Some decoded \<Rightarrow>
          (case snd decoded of
             None \<Rightarrow> Inl (TypeError ''cannot convert NoneType object to bytes'')
           | Some key_data \<Rightarrow>
               Inr (Some (''58'' @ format_02x (length key_data) @ bytes_hex key_data))))"

definition generate_proper_cbor_hex :: "string \<Rightarrow> string" where
  \<comment> \<open>lines 897-923\<close>
  "generate_proper_cbor_hex cbor_hex =
     (if startswith ''58'' cbor_hex then cbor_hex
      else
        (case cbor_hex_prefixes key_prefixes cbor_hex of
           Inl e \<Rightarrow> cbor_hex
         | Inr (Some r) \<Rightarrow> r
         | Inr None \<Rightarrow>
             if length cbor_hex = 64 then ''58'' @ ''20'' @ cbor_hex
             else if length cbor_hex = 128 then ''58'' @ ''40'' @ cbor_hex
             else cbor_hex))"

definition type_mapping :: "(string \<times> string) list" where
  "type_mapping =
     [(''payment_skey'', ''PaymentSigningKeyShelley_ed25519''),
      (''payment_vkey'', ''PaymentVerificationKeyShelley_ed25519''),
      (''stake_skey'', ''StakeSigningKeyShelley_ed25519''),
      (''stake_vkey'', ''StakeVerificationKeyShelley_ed25519''),
      (''cold_skey'', ''StakePoolSigningKey_ed25519''),
      (''cold_vkey'', ''StakePoolVerificationKey_ed25519''),
      (''hot_skey'', ''KesSigningKey_ed25519''),
      (''hot_vkey'', ''KesVerificationKey_ed25519''),
      (''drep_skey'', ''DRepSigningKey_ed25519''),
      (''drep_vkey'', ''DRepVerificationKey_ed25519''),
      (''ms_payment_skey'', ''PaymentSigningKeyShelley_ed25519''),
      (''ms_payment_vkey'', ''PaymentVerificationKeyShelley_ed25519''),
      (''ms_stake_skey'', ''StakeSigningKeyShelley_ed25519''),
      (''ms_stake_vkey'', ''StakeVerificationKeyShelley_ed25519''),
      (''ms_drep_skey'', ''DRepSigningKey_ed25519''),
      (''ms_drep_vkey'', ''DRepVerificationKey_ed25519'')]"

definition create_cardano_key_file :: "'x env \<Rightarrow> string \<Rightarrow> string \<Rightarrow> string \<Rightarrow> string" where
  \<comment> \<open>lines 865-895\<close>
  "create_cardano_key_file E key_type description cbor_hex =
     json_dumps E
       [(''type'', (case map_of type_mapping key_type of None \<Rightarrow> key_type | Some t \<Rightarrow> t)),
        (''description'', description),
        (''cborHex'', cbor_hex)]"

subsection \<open>The stake-pool bundle\<close>

definition lift :: "exn + 'a \<Rightarrow> ('a, 'x) io" where
  \<comment> \<open>a computation without effects that may raise\<close>
  "lift r = (\<lambda>w. (r, w))"

definition cli_call ::
  "'x env \<Rightarrow> CardanoWalletGenerator \<Rightarrow> string list \<Rightarrow> (string \<rightharpoonup> string)
     \<Rightarrow> (completed \<times> (string \<rightharpoonup> string), 'x) io"
where
  \<comment> \<open>\<^verbatim>\<open>subprocess.run([str(self.tools["cardano-cli"])] + args, capture_output=True,
      text=True)\<close>; \<open>tmp\<close> is the content of the temporary directory\<close>
  "cli_call E self args tmp =
     io_bind (tool_path self ''cardano-cli'') (\<lambda>t w.
       case cli_run E (t # args) tmp (outside w) of
         (result, tmp', x') \<Rightarrow>
           (Inr (result, tmp'), w\<lparr>calls := calls w @ [(t # args, None)], outside := x'\<rparr>))"

definition cli_checked ::
  "'x env \<Rightarrow> CardanoWalletGenerator \<Rightarrow> string list \<Rightarrow> string \<Rightarrow> (string \<rightharpoonup> string)
     \<Rightarrow> (completed \<times> (string \<rightharpoonup> string), 'x) io"
where
  \<comment> \<open>a call followed by \<^verbatim>\<open>if result.returncode != 0: raise ClickException(msg + stderr)\<close>\<close>
  "cli_checked E self args msg tmp =
     io_bind (cli_call E self args tmp) (\<lambda>(result, tmp').
       if returncode result \<noteq> 0 then io_raise (ClickException (msg @ stderr result))
       else io_return (result, tmp'))"

definition read_tmp :: "(string \<rightharpoonup> string) \<Rightarrow> string \<Rightarrow> (string, 'x) io" where
  \<comment> \<open>\<^verbatim>\<open>with open(path, "r") as f: f.read()\<close> in the temporary directory\<close>
  "read_tmp tmp path =
     (case tmp path of None \<Rightarrow> io_raise (FileNotFoundError path) | Some c \<Rightarrow> io_return c)"

definition key_gen ::
  "'x env \<Rightarrow> CardanoWalletGenerator \<Rightarrow> string list \<Rightarrow> string \<Rightarrow> string \<Rightarrow> string
     \<Rightarrow> (string \<rightharpoonup> string) \<Rightarrow> (string \<times> string \<times> (string \<rightharpoonup> string), 'x) io"
where
  \<comment> \<open>the block the source repeats for each of the eight key pairs: run the key
      generation command, read the two key files, parse both, take \<^verbatim>\<open>"cborHex"\<close> of
      the verification key and of the signing key\<close>
  "key_gen E self args vkey_file skey_file msg tmp =
     io_bind (cli_checked E self args msg tmp) (\<lambda>(result, tmp').
     io_bind (read_tmp tmp' vkey_file) (\<lambda>vkey_content.
     io_bind (read_tmp tmp' skey_file) (\<lambda>skey_content.
     io_bind (lift (json_loads E vkey_content)) (\<lambda>vkey_json.
     io_bind (lift (json_loads E skey_content)) (\<lambda>skey_json.
     io_bind (lift (subscript vkey_json ''cborHex'')) (\<lambda>vkey.
     io_bind (lift (subscript skey_json ''cborHex'')) (\<lambda>skey.
     io_return (vkey, skey, tmp'))))))))"

definition key_gen_args :: "string list \<Rightarrow> string \<Rightarrow> string \<Rightarrow> string list" where
  "key_gen_args sub vkey_file skey_file =
     sub @ [''--verification-key-file'', vkey_file, ''--signing-key-file'', skey_file]"

definition network_param :: "string \<Rightarrow> string list" where
  \<comment> \<open>line 1327, after \<^verbatim>\<open>.split()\<close>\<close>
  "network_param network =
     (if network \<noteq> ''mainnet'' then [''--testnet-magic'', ''1''] else [''--mainnet''])"

definition placeholder_delegation_cert :: "'x env \<Rightarrow> string" where
  \<comment> \<open>lines 1633-1640\<close>
  "placeholder_delegation_cert E =
     json_dumps E
       [(''type'', ''StakeDelegationCertificate''),
        (''description'', ''Stake Delegation Certificate (placeholder)''),
        (''cborHex'', ''82018200581cplaceholder_pool_id_here'')]"

definition key_hash ::
  "'x env \<Rightarrow> CardanoWalletGenerator \<Rightarrow> string list \<Rightarrow> string \<Rightarrow> (string \<rightharpoonup> string)
     \<Rightarrow> (string \<times> (string \<rightharpoonup> string), 'x) io"
where
  \<comment> \<open>a checked call whose result is \<^verbatim>\<open>result.stdout.strip()\<close>\<close>
  "key_hash E self args msg tmp =
     io_bind (cli_checked E self args msg tmp) (\<lambda>(result, tmp').
     io_return (strip (stdout result), tmp'))"

definition build_file ::
  "'x env \<Rightarrow> CardanoWalletGenerator \<Rightarrow> string list \<Rightarrow> string \<Rightarrow> string \<Rightarrow> (string \<rightharpoonup> string)
     \<Rightarrow> (string \<times> (string \<rightharpoonup> string), 'x) io"
where
  \<comment> \<open>a checked call with \<^verbatim>\<open>--out-file\<close>, whose result is the stripped content of
      that file\<close>
  "build_file E self args msg out_file tmp =
     io_bind (cli_checked E self args msg tmp) (\<lambda>(result, tmp').
     io_bind (read_tmp tmp' out_file) (\<lambda>content.
     io_return (strip content, tmp')))"

definition generate_keys_with_cardano_cli ::
  "'x env \<Rightarrow> CardanoWalletGenerator \<Rightarrow> string \<Rightarrow> string \<Rightarrow> (string \<rightharpoonup> string, 'x) io"
where
  \<comment> \<open>lines 1219-1645; \<open>tf name\<close> is \<^verbatim>\<open>str(temp_path / name)\<close>, and the temporary
      directory starts empty\<close>
  "generate_keys_with_cardano_cli E self purpose network =
     (let tf = path_join (temp_dir E) in
     io_bind (key_gen E self (key_gen_args [''address'', ''key-gen''] (tf ''payment.vkey'') (tf ''payment.skey'')) (tf ''payment.vkey'') (tf ''payment.skey'')
         ''Error generating payment keys: '' Map.empty)
       (\<lambda>(payment_vkey, payment_skey, tmp1).
     io_bind (key_gen E self (key_gen_args [''stake-address'', ''key-gen''] (tf ''stake.vkey'') (tf ''stake.skey'')) (tf ''stake.vkey'') (tf ''stake.skey'')
         ''Error generating stake keys: '' tmp1)
       (\<lambda>(staking_vkey, staking_skey, tmp2).
     io_bind (key_hash E self
                [''address'', ''key-hash'', ''--payment-verification-key-file'',
                 tf ''payment.vkey'']
                ''Error generating payment credential: '' tmp2) (\<lambda>(payment_cred, tmp3).
     io_bind (key_hash E self
                [''stake-address'', ''key-hash'', ''--stake-verification-key-file'',
                 tf ''stake.vkey'']
                ''Error generating stake credential: '' tmp3) (\<lambda>(stake_cred, tmp4).
     io_bind (build_file E self
                ([''address'', ''build'', ''--payment-verification-key-file'',
                  tf ''payment.vkey'', ''--stake-verification-key-file'', tf ''stake.vkey'',
                  ''--out-file'', tf ''base.addr''] @ network_param network)
                ''Error generating base address: '' (tf ''base.addr'') tmp4)
       (\<lambda>(base_addr, tmp5).
     io_bind (build_file E self
                ([''address'', ''build'', ''--payment-verification-key-file'',
                  tf ''payment.vkey'', ''--out-file'', tf ''payment.addr'']
                 @ network_param network)
                ''Error generating payment address: '' (tf ''payment.addr'') tmp5)
       (\<lambda>(payment_addr, tmp6).
     io_bind (build_file E self
                ([''stake-address'', ''build'', ''--stake-verification-key-file'',
                  tf ''stake.vkey'', ''--out-file'', tf ''reward.addr'']
                 @ network_param network)
                ''Error generating reward address: '' (tf ''reward.addr'') tmp6)
       (\<lambda>(reward_addr, tmp7).
     io_bind (build_file E self
                [''stake-address'', ''registration-certificate'',
                 ''--stake-verification-key-file'', tf ''stake.vkey'',
                 ''--out-file'', tf ''stake.cert'']
                ''Error generating stake certificate: '' (tf ''stake.cert'') tmp7)
       (\<lambda>(stake_cert, tmp8).
     io_bind (key_gen E self
                [''stake-pool'', ''key-gen'', ''--cold-verification-key-file'',
                 tf ''cc-cold.vkey'', ''--cold-signing-key-file'', tf ''cc-cold.skey'']
                (tf ''cc-cold.vkey'') (tf ''cc-cold.skey'')
                ''Error generating cold keys: '' tmp8)
       (\<lambda>(cold_vkey, cold_skey, tmp9).
     io_bind (key_gen E self (key_gen_args [''node'', ''key-gen-KES''] (tf ''cc-hot.vkey'') (tf ''cc-hot.skey'')) (tf ''cc-hot.vkey'') (tf ''cc-hot.skey'')
         ''Error generating hot keys: '' tmp9)
       (\<lambda>(hot_vkey, hot_skey, tmp10).
     io_bind (key_gen E self (key_gen_args [''conway'', ''governance'', ''drep'', ''key-gen''] (tf ''drep.vkey'') (tf ''drep.skey'')) (tf ''drep.vkey'') (tf ''drep.skey'')
         ''Error generating DRep keys: '' tmp10)
       (\<lambda>(drep_vkey, drep_skey, tmp11).
     io_bind (key_gen E self (key_gen_args [''address'', ''key-gen''] (tf ''ms_payment.vkey'') (tf ''ms_payment.skey'')) (tf ''ms_payment.vkey'') (tf ''ms_payment.skey'')
         ''Error generating MS payment keys: '' tmp11)
       (\<lambda>(ms_payment_vkey, ms_payment_skey, tmp12).
     io_bind (key_gen E self (key_gen_args [''stake-address'', ''key-gen''] (tf ''ms_stake.vkey'') (tf ''ms_stake.skey'')) (tf ''ms_stake.vkey'') (tf ''ms_stake.skey'')
         ''Error generating MS stake keys: '' tmp12)
       (\<lambda>(ms_stake_vkey, ms_stake_skey, tmp13).
     io_bind (key_gen E self (key_gen_args [''conway'', ''governance'', ''drep'', ''key-gen''] (tf ''ms_drep.vkey'') (tf ''ms_drep.skey'')) (tf ''ms_drep.vkey'') (tf ''ms_drep.skey'')
         ''Error generating MS DRep keys: '' tmp13)
       (\<lambda>(ms_drep_vkey, ms_drep_skey, tmp14).
     io_bind (key_hash E self
                [''address'', ''key-hash'', ''--payment-verification-key-file'',
                 tf ''ms_payment.vkey'']
                ''Error generating MS payment credential: '' tmp14)
       (\<lambda>(ms_payment_cred, tmp15).
     io_bind (key_hash E self
                [''stake-address'', ''key-hash'', ''--stake-verification-key-file'',
                 tf ''ms_stake.vkey'']
                ''Error generating MS stake credential: '' tmp15)
       (\<lambda>(ms_stake_cred, tmp16).
     io_bind (cli_call E self
                [''stake-address'', ''delegation-certificate'',
                 ''--stake-verification-key-file'', tf ''stake.vkey'',
                 ''--stake-pool-id'', ''placeholder_pool_id'',
                 ''--out-file'', tf ''delegation.cert''] tmp16)
       (\<lambda>(result, tmp17).
     io_bind (if returncode result \<noteq> 0 then io_return (placeholder_delegation_cert E)
              else io_bind (read_tmp tmp17 (tf ''delegation.cert''))
                     (\<lambda>content. io_return (strip content)))
       (\<lambda>delegation_cert.
     io_return
       [''payment_vkey'' \<mapsto> payment_vkey, ''payment_skey'' \<mapsto> payment_skey,
        ''staking_vkey'' \<mapsto> staking_vkey, ''staking_skey'' \<mapsto> staking_skey,
        ''payment_cred'' \<mapsto> payment_cred, ''stake_cred'' \<mapsto> stake_cred,
        ''base_addr'' \<mapsto> base_addr, ''payment_addr'' \<mapsto> payment_addr,
        ''reward_addr'' \<mapsto> reward_addr, ''stake_cert'' \<mapsto> stake_cert,
        ''cold_vkey'' \<mapsto> cold_vkey, ''cold_skey'' \<mapsto> cold_skey,
        ''hot_vkey'' \<mapsto> hot_vkey, ''hot_skey'' \<mapsto> hot_skey,
        ''drep_vkey'' \<mapsto> drep_vkey, ''drep_skey'' \<mapsto> drep_skey,
        ''ms_payment_vkey'' \<mapsto> ms_payment_vkey, ''ms_payment_skey'' \<mapsto> ms_payment_skey,
        ''ms_stake_vkey'' \<mapsto> ms_stake_vkey, ''ms_stake_skey'' \<mapsto> ms_stake_skey,
        ''ms_drep_vkey'' \<mapsto> ms_drep_vkey, ''ms_drep_skey'' \<mapsto> ms_drep_skey,
        ''ms_payment_cred'' \<mapsto> ms_payment_cred, ''ms_stake_cred'' \<mapsto> ms_stake_cred,
        ''delegation_cert'' \<mapsto> delegation_cert])))))))))))))))))))"

definition write_key_file ::
  "'x env \<Rightarrow> string \<Rightarrow> string \<Rightarrow> string \<Rightarrow> (string \<rightharpoonup> string) \<Rightarrow> string \<Rightarrow> (unit, 'x) io"
where
  \<comment> \<open>a key file of \<open>save_complete_wallet_files\<close>: the content is built from
      \<^verbatim>\<open>wallet_data[key]\<close> first, the file opened and written afterwards\<close>
  "write_key_file E path key_type description wallet_data key =
     io_bind (lookup wallet_data key) (\<lambda>v w.
       (Inr (),
        w\<lparr>files := (files w)(path \<mapsto>
             create_cardano_key_file E key_type description (generate_proper_cbor_hex v))\<rparr>))"

definition write_cred ::
  "'x env \<Rightarrow> string \<Rightarrow> (string \<rightharpoonup> string) \<Rightarrow> string \<Rightarrow> (unit, 'x) io"
where
  \<comment> \<open>\<^verbatim>\<open>with open(path, "w") as f:
      f.write(self.generate_proper_credential_hash(wallet_data[key]))\<close>\<close>
  "write_cred E path wallet_data key =
     (\<lambda>w. case wallet_data key of
            None \<Rightarrow> (Inl (KeyError key), w\<lparr>files := (files w)(path \<mapsto> [])\<rparr>)
          | Some v \<Rightarrow>
              (Inr (), w\<lparr>files := (files w)(path \<mapsto> generate_proper_credential_hash E v)\<rparr>))"

fun chmod_all :: "string list \<Rightarrow> nat \<Rightarrow> (unit, 'x) io" where
  "chmod_all [] mode = io_return ()"
| "chmod_all (p # ps) mode = io_bind (chmod p mode) (\<lambda>_. chmod_all ps mode)"

definition save_complete_wallet_files ::
  "'x env \<Rightarrow> CardanoWalletGenerator \<Rightarrow> string \<Rightarrow> (string \<rightharpoonup> string) \<Rightarrow> (string, 'x) io"
where
  \<comment> \<open>lines 970-1217; \<open>wf name\<close> is \<^verbatim>\<open>wallet_dir / name\<close>\<close>
  "save_complete_wallet_files E self purpose wallet_data =
     (let wf = path_join (path_join (home_dir self) purpose) in
     io_bind (write_key (wf ''base.addr'') wallet_data ''base_addr'') (\<lambda>_.
     io_bind (write_key (wf ''payment.addr'') wallet_data ''payment_addr'') (\<lambda>_.
     io_bind (write_key (wf ''reward.addr'') wallet_data ''reward_addr'') (\<lambda>_.
     io_bind (write_key_file E (wf ''payment.skey'') ''payment_skey'' ''Payment Signing Key''
                wallet_data ''payment_skey'') (\<lambda>_.
     io_bind (write_key_file E (wf ''payment.vkey'') ''payment_vkey'' ''Payment Verification Key''
                wallet_data ''payment_vkey'') (\<lambda>_.
     io_bind (write_key_file E (wf ''stake.skey'') ''stake_skey'' ''Stake Signing Key''
                wallet_data ''staking_skey'') (\<lambda>_.
     io_bind (write_key_file E (wf ''stake.vkey'') ''stake_vkey'' ''Stake Verification Key''
                wallet_data ''staking_vkey'') (\<lambda>_.
     io_bind (write_key_file E (wf ''cc-cold.skey'') ''cold_skey''
                ''Stake Pool Operator Signing Key'' wallet_data ''cold_skey'') (\<lambda>_.
     io_bind (write_key_file E (wf ''cc-cold.vkey'') ''cold_vkey''
                ''Stake Pool Operator Verification Key'' wallet_data ''cold_vkey'') (\<lambda>_.
     io_bind (write_key_file E (wf ''cc-hot.skey'') ''hot_skey'' ''KES Signing Key''
                wallet_data ''hot_skey'') (\<lambda>_.
     io_bind (write_key_file E (wf ''cc-hot.vkey'') ''hot_vkey'' ''KES Verification Key''
                wallet_data ''hot_vkey'') (\<lambda>_.
     io_bind (write_key_file E (wf ''drep.skey'') ''drep_skey'' ''DRep Signing Key''
                wallet_data ''drep_skey'') (\<lambda>_.
     io_bind (write_key_file E (wf ''drep.vkey'') ''drep_vkey'' ''DRep Verification Key''
                wallet_data ''drep_vkey'') (\<lambda>_.
     io_bind (write_key_file E (wf ''ms_payment.skey'') ''ms_payment_skey''
                ''Multi-Signature Payment Signing Key'' wallet_data ''ms_payment_skey'') (\<lambda>_.
     io_bind (write_key_file E (wf ''ms_payment.vkey'') ''ms_payment_vkey''
                ''Multi-Signature Payment Verification Key'' wallet_data ''ms_payment_vkey'') (\<lambda>_.
     io_bind (write_key_file E (wf ''ms_stake.skey'') ''ms_stake_skey''
                ''Multi-Signature Stake Signing Key'' wallet_data ''ms_stake_skey'') (\<lambda>_.
     io_bind (write_key_file E (wf ''ms_stake.vkey'') ''ms_stake_vkey''
                ''Multi-Signature Stake Verification Key'' wallet_data ''ms_stake_vkey'') (\<lambda>_.
     io_bind (write_key_file E (wf ''ms_drep.skey'') ''ms_drep_skey''
                ''Multi-Signature DRep Signing Key'' wallet_data ''ms_drep_skey'') (\<lambda>_.
     io_bind (write_key_file E (wf ''ms_drep.vkey'') ''ms_drep_vkey''
                ''Multi-Signature DRep Verification Key'' wallet_data ''ms_drep_vkey'') (\<lambda>_.
     io_bind (write_cred E (wf ''payment.cred'') wallet_data ''payment_cred'') (\<lambda>_.
     io_bind (write_cred E (wf ''stake.cred'') wallet_data ''stake_cred'') (\<lambda>_.
     io_bind (write_cred E (wf ''ms_payment.cred'') wallet_data ''ms_payment_cred'') (\<lambda>_.
     io_bind (write_cred E (wf ''ms_stake.cred'') wallet_data ''ms_stake_cred'') (\<lambda>_.
     io_bind (write_key (wf ''stake.cert'') wallet_data ''stake_cert'') (\<lambda>_.
     io_bind (write_key (wf ''delegation.cert'') wallet_data ''delegation_cert'') (\<lambda>_.
     io_bind (write_key (wf (ticker self @ ''-'' @ purpose @ ''.mnemonic.txt'')) wallet_data
                ''mnemonic'') (\<lambda>_.
     io_bind (chmod_all
                [wf ''payment.skey'', wf ''stake.skey'', wf ''cc-cold.skey'', wf ''cc-hot.skey'',
                 wf ''drep.skey'', wf ''ms_payment.skey'', wf ''ms_stake.skey'',
                 wf ''ms_drep.skey'', wf (ticker self @ ''-'' @ purpose @ ''.mnemonic.txt'')]
                384) (\<lambda>_.
     io_return (path_join (home_dir self) purpose)))))))))))))))))))))))))))))"

definition generate_stake_pool_files ::
  "'x env \<Rightarrow> CardanoWalletGenerator \<Rightarrow> string \<Rightarrow> string \<Rightarrow> (string \<rightharpoonup> string, 'x) io"
where
  \<comment> \<open>lines 581-603\<close>
  "generate_stake_pool_files E self purpose network =
     io_bind (generate_keys_with_cardano_cli E self purpose network) (\<lambda>wallet_data.
     io_bind (save_complete_wallet_files E self purpose wallet_data) (\<lambda>wallet_dir.
     io_return wallet_data))"

section \<open>Notions used to state the properties\<close>

fun join_words :: "string list \<Rightarrow> string" where
  \<comment> \<open>\<^verbatim>\<open>" ".join(ws)\<close>, the way the \<^verbatim>\<open>mnemonic\<close> library builds a phrase\<close>
  "join_words [] = []"
| "join_words [w] = w"
| "join_words (w # v # ws) = w @ '' '' @ join_words (v # ws)"


definition child_paths :: "(string list \<times> string option) list \<Rightarrow> string list" where
  \<comment> \<open>the derivation paths of the \<^verbatim>\<open>key child <path>\<close> commands of a trace\<close>
  "child_paths trace =
     map (\<lambda>(cmd, inp). cmd ! 3)
       (filter (\<lambda>(cmd, inp). length cmd = 4 \<and> cmd ! 1 = ''key'' \<and> cmd ! 2 = ''child'') trace)"

definition keeps_files :: "('a, 'x) io \<Rightarrow> bool" where
  \<comment> \<open>a computation that writes no file and changes no mode\<close>
  "keeps_files m = (\<forall>w. files (snd (m w)) = files w \<and> modes (snd (m w)) = modes w)"

definition keeps_files_except :: "string set \<Rightarrow> ('a, 'x) io \<Rightarrow> bool" where
  \<comment> \<open>a computation that writes no file outside \<open>S\<close>\<close>
  "keeps_files_except S m = (\<forall>w p. p \<notin> S \<longrightarrow> files (snd (m w)) p = files w p)"

definition fails_without_writing :: "string set \<Rightarrow> ('a, 'x) io \<Rightarrow> bool" where
  \<comment> \<open>a computation that has written no file outside \<open>S\<close> whenever it ends in an
      exception\<close>
  "fails_without_writing S m =
     (\<forall>w. isl (fst (m w)) \<longrightarrow> (\<forall>p. p \<notin> S \<longrightarrow> files (snd (m w)) p = files w p))"

definition ignores_files :: "('a, 'x) io \<Rightarrow> bool" where
  \<comment> \<open>a computation that neither reads nor writes the files and modes of the world: it
      commutes with replacing them\<close>
  "ignores_files m =
     (\<forall>w f md. m (w\<lparr>files := f, modes := md\<rparr>)
                = (fst (m w), (snd (m w))\<lparr>files := f, modes := md\<rparr>))"

definition issues_no_child_path :: "('a, 'x) io \<Rightarrow> bool" where
  \<comment> \<open>a computation that hands no derivation path to a tool\<close>
  "issues_no_child_path m = (\<forall>w. child_paths (calls (snd (m w))) = child_paths (calls w))"

definition ensures :: "('a, 'x) io \<Rightarrow> ('a \<Rightarrow> bool) \<Rightarrow> bool" where
  \<comment> \<open>every normal return of the computation satisfies \<open>Q\<close>\<close>
  "ensures m Q = (\<forall>w a w'. m w = (Inr a, w') \<longrightarrow> Q a)"

definition base_address_calls ::
  "'x env \<Rightarrow> string \<Rightarrow> string \<Rightarrow> string \<Rightarrow> string \<Rightarrow> 'x
     \<Rightarrow> (string list \<times> string option) list"
where
  \<comment> \<open>the commands a base address built with network tag \<open>tag\<close> sends to the tool at
      \<open>t\<close>, whose state is \<open>x\<close>: the payment address with that tag; if it succeeded,
      the stake address with that tag; if both succeeded, the delegation\<close>
  "base_address_calls E t payment_vkey staking_vkey tag x =
     (case subprocess_run E [t, ''address'', ''payment'', ''--network-tag'', tag] payment_vkey x of
        (payment_result, x1) \<Rightarrow>
          ([t, ''address'', ''payment'', ''--network-tag'', tag], Some payment_vkey)
          # (if returncode payment_result \<noteq> 0 then []
             else
               (case subprocess_run E [t, ''address'', ''stake'', ''--network-tag'', tag]
                       staking_vkey x1 of
                  (stake_result, x2) \<Rightarrow>
                    ([t, ''address'', ''stake'', ''--network-tag'', tag], Some staking_vkey)
                    # (if returncode stake_result \<noteq> 0 then []
                       else [([t, ''address'', ''delegation'', staking_vkey],
                              Some (strip (stdout payment_result)))]))))"

definition stake_pool_commands :: "string \<Rightarrow> string \<Rightarrow> string \<Rightarrow> string list list" where
  \<comment> \<open>the seventeen command lines of lines 1219-1645, in their order, for the tool at
      \<open>t\<close> and the temporary directory \<open>dir\<close>; the first, the second and the ninth to
      the fourteenth are the key generation commands of the eight roles\<close>
  "stake_pool_commands t dir network =
     (let tf = path_join dir in
      [[t, ''address'', ''key-gen'', ''--verification-key-file'', tf ''payment.vkey'',
        ''--signing-key-file'', tf ''payment.skey''],
       [t, ''stake-address'', ''key-gen'', ''--verification-key-file'', tf ''stake.vkey'',
        ''--signing-key-file'', tf ''stake.skey''],
       [t, ''address'', ''key-hash'', ''--payment-verification-key-file'', tf ''payment.vkey''],
       [t, ''stake-address'', ''key-hash'', ''--stake-verification-key-file'', tf ''stake.vkey''],
       [t, ''address'', ''build'', ''--payment-verification-key-file'', tf ''payment.vkey'',
        ''--stake-verification-key-file'', tf ''stake.vkey'', ''--out-file'', tf ''base.addr'']
         @ network_param network,
       [t, ''address'', ''build'', ''--payment-verification-key-file'', tf ''payment.vkey'',
        ''--out-file'', tf ''payment.addr''] @ network_param network,
       [t, ''stake-address'', ''build'', ''--stake-verification-key-file'', tf ''stake.vkey'',
        ''--out-file'', tf ''reward.addr''] @ network_param network,
       [t, ''stake-address'', ''registration-certificate'', ''--stake-verification-key-file'',
        tf ''stake.vkey'', ''--out-file'', tf ''stake.cert''],
       [t, ''stake-pool'', ''key-gen'', ''--cold-verification-key-file'', tf ''cc-cold.vkey'',
        ''--cold-signing-key-file'', tf ''cc-cold.skey''],
       [t, ''node'', ''key-gen-KES'', ''--verification-key-file'', tf ''cc-hot.vkey'',
        ''--signing-key-file'', tf ''cc-hot.skey''],
       [t, ''conway'', ''governance'', ''drep'', ''key-gen'', ''--verification-key-file'',
        tf ''drep.vkey'', ''--signing-key-file'', tf ''drep.skey''],
       [t, ''address'', ''key-gen'', ''--verification-key-file'', tf ''ms_payment.vkey'',
        ''--signing-key-file'', tf ''ms_payment.skey''],
       [t, ''stake-address'', ''key-gen'', ''--verification-key-file'', tf ''ms_stake.vkey'',
        ''--signing-key-file'', tf ''ms_stake.skey''],
       [t, ''conway'', ''governance'', ''drep'', ''key-gen'', ''--verification-key-file'',
        tf ''ms_drep.vkey'', ''--signing-key-file'', tf ''ms_drep.skey''],
       [t, ''address'', ''key-hash'', ''--payment-verification-key-file'',
        tf ''ms_payment.vkey''],
       [t, ''stake-address'', ''key-hash'', ''--stake-verification-key-file'',
        tf ''ms_stake.vkey''],
       [t, ''stake-address'', ''delegation-certificate'', ''--stake-verification-key-file'',
        tf ''stake.vkey'', ''--stake-pool-id'', ''placeholder_pool_id'', ''--out-file'',
        tf ''delegation.cert'']])"

definition cli_step ::
  "'x env \<Rightarrow> string list \<Rightarrow> (string \<rightharpoonup> string) \<times> 'x \<Rightarrow> (string \<rightharpoonup> string) \<times> 'x"
where
  \<comment> \<open>what one \<^verbatim>\<open>cardano-cli\<close> command does to the temporary directory and to the
      state of the tool\<close>
  "cli_step E cmd s = snd (cli_run E cmd (fst s) (snd s))"

definition files_after :: "'x env \<Rightarrow> string list list \<Rightarrow> 'x \<Rightarrow> (string \<rightharpoonup> string)" where
  \<comment> \<open>the temporary directory once the tool has run the commands in order, from the
      empty directory and the state \<open>x\<close>\<close>
  "files_after E cmds x = fst (fold (cli_step E) cmds (Map.empty, x))"

definition cbor_hex_of :: "'x env \<Rightarrow> (string \<rightharpoonup> string) \<Rightarrow> string \<Rightarrow> string option" where
  \<comment> \<open>the \<^verbatim>\<open>"cborHex"\<close> member of the key file at \<open>path\<close>, when the file exists and
      parses to an object with that member\<close>
  "cbor_hex_of E tmp path =
     (case tmp path of
        None \<Rightarrow> None
      | Some content \<Rightarrow>
          (case json_loads E content of
             Inl e \<Rightarrow> None
           | Inr doc \<Rightarrow> (case subscript doc ''cborHex'' of Inl e \<Rightarrow> None | Inr v \<Rightarrow> Some v)))"

section \<open>Synthetic tools for the closed instances\<close>

text \<open>
  The closed instances below run the flows against concrete stand-ins for the external
  tools. The state of the outside is a counter of the calls made so far. With
  \<open>flaky\<close> set, \<^verbatim>\<open>address delegation\<close> answers differently from the eleventh call on,
  as a tool with a fault would; key generation by \<^verbatim>\<open>cardano-cli\<close> yields fresh keys
  on every call, as a random key generator does, and the content of a key file stands for
  its \<^verbatim>\<open>cborHex\<close> member.
\<close>

definition fixture_phrase :: string where
  "fixture_phrase = join_words (replicate 23 ''abandon'' @ [''art''])"

definition fixture_run :: "bool \<Rightarrow> string list \<Rightarrow> string \<Rightarrow> nat \<Rightarrow> completed \<times> nat" where
  "fixture_run flaky cmd inp n =
     (\<lparr>returncode = 0,
       stdout =
         (if take 2 (drop 1 cmd) = [''key'', ''from-recovery-phrase''] then ''root_xsk''
          else if take 2 (drop 1 cmd) = [''key'', ''child''] then ''xsk/'' @ last cmd
          else if take 2 (drop 1 cmd) = [''key'', ''public''] then ''xvk:'' @ inp
          else if take 2 (drop 1 cmd) = [''address'', ''payment''] then ''addr1vpayment''
          else if take 2 (drop 1 cmd) = [''address'', ''stake''] then ''stake16dwawz''
          else if take 2 (drop 1 cmd) = [''address'', ''delegation'']
          then (if flaky \<and> 10 \<le> n then ''addr1qypqx805nky'' else ''addr1mykd6t'')
          else []) @ [CHR 0x0A],
       stderr = []\<rparr>,
      Suc n)"

definition fixture_key :: "nat \<Rightarrow> string" where
  \<comment> \<open>the key material the synthetic key generator produces on its \<open>n\<close>-th call\<close>
  "fixture_key n = ''5820'' @ replicate n CHR ''a''"

definition fixture_cli ::
  "string list \<Rightarrow> (string \<rightharpoonup> string) \<Rightarrow> nat \<Rightarrow> completed \<times> (string \<rightharpoonup> string) \<times> nat"
where
  \<comment> \<open>every file named on the command line is written, with content that depends on
      the number of calls made before\<close>
  "fixture_cli cmd tmp n =
     (\<lparr>returncode = 0, stdout = ''cafe'' @ [CHR 0x0A], stderr = []\<rparr>,
      (\<lambda>p. if p \<in> set cmd then Some (fixture_key n) else tmp p),
      Suc n)"

definition fixture_env :: "bool \<Rightarrow> nat env" where
  "fixture_env flaky =
     \<lparr>subprocess_run = fixture_run flaky,
      cli_run = fixture_cli,
      mnemo_generate = (\<lambda>strength n. (fixture_phrase, Suc n)),
      sha256 = (\<lambda>s. replicate 32 0),
      json_loads = (\<lambda>content. Inr (JObject [(''cborHex'', content)])),
      json_dumps = (\<lambda>kvs. concat (map (\<lambda>(k, v). k @ ''='' @ v @ '';'') kvs)),
      temp_dir = ''/tmp/tmpdir''\<rparr>"

definition fixture_self :: CardanoWalletGenerator where
  "fixture_self =
     \<lparr>ticker = ''DEMO'',
      home_dir = ''/home/spo/.CSPO_DEMO'',
      tools = [(''cardano-address'', ''/bin/cardano-address''), (''cardano-cli'', ''/bin/cardano-cli'')],
      shared_mnemonic_file = ''/home/spo/.CSPO_DEMO/DEMO-shared.mnemonic.txt''\<rparr>"

definition fixture_world :: "nat world" where
  "fixture_world = \<lparr>files = Map.empty, modes = Map.empty, calls = [], outside = 0\<rparr>"

section \<open>Evaluation and library facts\<close>

lemmas bech32_eval =
  bech32_decode_def lower_def upper_def lower_char_def upper_char_def rfind_def find_char_def
  CHARSET_def bech32_verify_checksum_def bech32_polymod_def bech32_hrp_expand_def
  polymod_step_def generator_def Let_def

lemmas segwit_eval = decode_def convertbits_def convertbits_emit.simps

lemmas char_eval = char_of_def bit_Suc_0_iff

lemmas io_eval = io_bind_def io_return_def io_raise_def tool_path_def run_def lift_def

lemmas fixture_eval =
  fixture_env_def fixture_self_def fixture_world_def fixture_run_def fixture_cli_def
  fixture_phrase_def

lemma fixture_self_new:
  "new_generator ''/home/spo'' (tools fixture_self) ''demo'' = Inr fixture_self"
  by (simp add: new_generator_def fixture_self_def path_join_def startswith_def upper_def
        upper_char_def Let_def char_eval)







lemma validate_address_try_total: "\<exists>b. validate_address_try a = Inr b"
  by (cases "bech32_decode a") (auto simp: validate_address_try_def split: option.splits)

lemma credential_hash_prefixes_first:
  "credential_hash_prefixes key_prefixes key_data =
     (case snd (decode ''addr_vkh'' key_data) of
        None \<Rightarrow> Inl (TypeError ''cannot convert NoneType object to bytes'')
      | Some key_bytes \<Rightarrow> Inr (Some (bytes_hex (take 28 key_bytes))))"
  by (simp add: key_prefixes_def)

lemma network_tag_values:
  "network_tag ''mainnet'' = ''1''" "network_tag ''testnet'' = ''0''"
  "network_tag ''preview'' = ''0''" "network_tag ''preprod'' = ''0''"
  by (simp_all add: network_tag_def network_tags_def)

lemma network_tag_unknown:
  "network \<notin> {''mainnet'', ''testnet'', ''preview'', ''preprod''} \<Longrightarrow> network_tag network = ''1''"
  by (simp add: network_tag_def network_tags_def)

section \<open>Frame and result rules for the flows\<close>

subsection \<open>Frame rules\<close>

lemma keeps_files_return: "keeps_files (io_return a)"
  by (simp add: keeps_files_def io_return_def)

lemma keeps_files_raise: "keeps_files (io_raise e)"
  by (simp add: keeps_files_def io_raise_def)

lemma keeps_files_lift: "keeps_files (lift r)"
  by (simp add: keeps_files_def lift_def)

lemma keeps_files_bind:
  assumes "keeps_files m" and "\<And>a. keeps_files (f a)"
  shows "keeps_files (io_bind m f)"
proof -
  have "files (snd (io_bind m f w)) = files w \<and> modes (snd (io_bind m f w)) = modes w" for w
  proof (cases "m w")
    case (Pair r w1)
    have m: "files w1 = files w" "modes w1 = modes w"
      using assms(1) Pair by (auto simp: keeps_files_def dest: spec [of _ w])
    show ?thesis
    proof (cases r)
      case (Inl e)
      then show ?thesis using Pair m by (simp add: io_bind_def)
    next
      case (Inr a)
      have "files (snd (f a w1)) = files w1" "modes (snd (f a w1)) = modes w1"
        using assms(2) [of a] by (auto simp: keeps_files_def)
      then show ?thesis using Pair Inr m by (simp add: io_bind_def)
    qed
  qed
  then show ?thesis by (simp add: keeps_files_def)
qed

lemma keeps_files_if:
  "keeps_files a \<Longrightarrow> keeps_files b \<Longrightarrow> keeps_files (if c then a else b)"
  by simp

lemma keeps_files_case_prod:
  "(\<And>x y. keeps_files (f x y)) \<Longrightarrow> keeps_files (case p of (x, y) \<Rightarrow> f x y)"
  by (cases p) simp

lemma keeps_files_tool_path: "keeps_files (tool_path self name)"
  by (simp add: tool_path_def keeps_files_return keeps_files_raise split: option.splits)

lemma keeps_files_run: "keeps_files (run E cmd inp)"
  by (simp add: keeps_files_def run_def split: prod.splits)

lemmas keeps_files_intros =
  keeps_files_bind keeps_files_return keeps_files_raise keeps_files_lift keeps_files_if
  keeps_files_case_prod keeps_files_tool_path keeps_files_run

lemma keeps_files_mnemonic_to_root_key: "keeps_files (mnemonic_to_root_key E self mnemonic)"
  unfolding mnemonic_to_root_key_def by (intro keeps_files_intros)

lemma keeps_files_derive_child: "keeps_files (derive_child E self path m1 m2 root_key)"
  unfolding derive_child_def by (intro keeps_files_intros)

lemma keeps_files_generate_payment_address:
  "keeps_files (generate_payment_address E self pv sv network)"
  unfolding generate_payment_address_def by (intro keeps_files_intros)

lemma keeps_files_generate_address_candidate:
  "keeps_files (generate_address_candidate E self pv sv network)"
  unfolding generate_address_candidate_def by (intro keeps_files_intros)

lemma keeps_files_generate_staking_address:
  "keeps_files (generate_staking_address E self sv network)"
  unfolding generate_staking_address_def by (intro keeps_files_intros)

lemma keeps_files_derive_payment_key: "keeps_files (derive_payment_key E self root_key purpose)"
  unfolding derive_payment_key_def by (rule keeps_files_derive_child)

lemma keeps_files_derive_staking_key: "keeps_files (derive_staking_key E self root_key)"
  unfolding derive_staking_key_def by (rule keeps_files_derive_child)

subsection \<open>Exceptions leave no file\<close>

lemma keeps_files_exceptI: "keeps_files m \<Longrightarrow> keeps_files_except S m"
  by (simp add: keeps_files_def keeps_files_except_def)

lemma fww_raise: "fails_without_writing S (io_raise e)"
  by (simp add: fails_without_writing_def io_raise_def)

lemma fww_if:
  "fails_without_writing S a \<Longrightarrow> fails_without_writing S b
   \<Longrightarrow> fails_without_writing S (if c then a else b)"
  by simp

lemma fww_case_prod:
  "(\<And>x y. fails_without_writing S (f x y))
   \<Longrightarrow> fails_without_writing S (case p of (x, y) \<Rightarrow> f x y)"
  by (cases p) simp

lemma fww_bind:
  assumes "keeps_files_except S m" and "\<And>a. fails_without_writing S (f a)"
  shows "fails_without_writing S (io_bind m f)"
  unfolding fails_without_writing_def
proof (intro allI impI)
  fix w p
  assume fail: "isl (fst (io_bind m f w))" and p: "p \<notin> S"
  obtain r w1 where mw: "m w = (r, w1)" by (cases "m w")
  have m: "files w1 p = files w p"
    using assms(1) mw p by (auto simp: keeps_files_except_def dest: spec [of _ w])
  show "files (snd (io_bind m f w)) p = files w p"
  proof (cases r)
    case (Inl e)
    then show ?thesis using mw m by (simp add: io_bind_def)
  next
    case (Inr a)
    have "isl (fst (f a w1))" using fail mw Inr by (simp add: io_bind_def)
    then have "files (snd (f a w1)) p = files w1 p"
      using assms(2) [of a] p by (simp add: fails_without_writing_def)
    then show ?thesis using mw Inr m by (simp add: io_bind_def)
  qed
qed

lemma save_wallet_files_complete:
  "\<exists>w'. save_wallet_files self purpose
      [''base_addr'' \<mapsto> a, ''base_addr_candidate'' \<mapsto> b, ''reward_addr'' \<mapsto> c,
       ''reward_addr_candidate'' \<mapsto> d, ''staking_skey'' \<mapsto> e, ''staking_vkey'' \<mapsto> f,
       ''mnemonic'' \<mapsto> g] w = (Inr (path_join (home_dir self) purpose), w')"
  by (simp add: save_wallet_files_def write_key_def chmod_def io_bind_def io_return_def)

lemma fww_save_and_return:
  "fails_without_writing S
     (io_bind (save_wallet_files self purpose
        [''base_addr'' \<mapsto> a, ''base_addr_candidate'' \<mapsto> b, ''reward_addr'' \<mapsto> c,
         ''reward_addr_candidate'' \<mapsto> d, ''staking_skey'' \<mapsto> e, ''staking_vkey'' \<mapsto> f,
         ''mnemonic'' \<mapsto> g]) (\<lambda>wallet_dir. io_return D))"
  unfolding fails_without_writing_def
proof (intro allI impI)
  fix w p
  assume fail: "isl (fst (io_bind (save_wallet_files self purpose
        [''base_addr'' \<mapsto> a, ''base_addr_candidate'' \<mapsto> b, ''reward_addr'' \<mapsto> c,
         ''reward_addr_candidate'' \<mapsto> d, ''staking_skey'' \<mapsto> e, ''staking_vkey'' \<mapsto> f,
         ''mnemonic'' \<mapsto> g]) (\<lambda>wallet_dir. io_return D) w))"
  have False
    using save_wallet_files_complete [of self purpose a b c d e f g w] fail
    by (auto simp: io_bind_def io_return_def)
  then show "files (snd (io_bind (save_wallet_files self purpose
        [''base_addr'' \<mapsto> a, ''base_addr_candidate'' \<mapsto> b, ''reward_addr'' \<mapsto> c,
         ''reward_addr_candidate'' \<mapsto> d, ''staking_skey'' \<mapsto> e, ''staking_vkey'' \<mapsto> f,
         ''mnemonic'' \<mapsto> g]) (\<lambda>wallet_dir. io_return D) w)) p = files w p" ..
qed

lemma get_or_create_keeps:
  "keeps_files_except {shared_mnemonic_file self} (get_or_create_shared_mnemonic E self)"
  by (auto simp: keeps_files_except_def get_or_create_shared_mnemonic_def
        split: option.splits prod.splits)

lemma fww_generate_wallet:
  "fails_without_writing {shared_mnemonic_file self} (generate_wallet E self purpose network)"
  unfolding generate_wallet_def
  by (intro fww_bind fww_case_prod fww_if fww_raise fww_save_and_return get_or_create_keeps
        keeps_files_exceptI keeps_files_mnemonic_to_root_key keeps_files_derive_payment_key
        keeps_files_derive_staking_key keeps_files_generate_payment_address
        keeps_files_generate_staking_address keeps_files_generate_address_candidate)

subsection \<open>What a normal return guarantees\<close>

lemma ensures_raise: "ensures (io_raise e) Q"
  by (simp add: ensures_def io_raise_def)

lemma ensures_return: "Q a \<Longrightarrow> ensures (io_return a) Q"
  by (simp add: ensures_def io_return_def)

lemma ensures_if:
  "(c \<Longrightarrow> ensures a Q) \<Longrightarrow> (\<not> c \<Longrightarrow> ensures b Q) \<Longrightarrow> ensures (if c then a else b) Q"
  by simp

lemma ensures_case_prod:
  "(\<And>x y. ensures (f x y) Q) \<Longrightarrow> ensures (case p of (x, y) \<Rightarrow> f x y) Q"
  by (cases p) simp

lemma ensures_bind:
  assumes "\<And>a. ensures (f a) Q"
  shows "ensures (io_bind m f) Q"
  unfolding ensures_def
proof (intro allI impI)
  fix w b w'
  assume run: "io_bind m f w = (Inr b, w')"
  obtain r w1 where mw: "m w = (r, w1)" by (cases "m w")
  show "Q b"
  proof (cases r)
    case (Inl e)
    then show ?thesis using run mw by (simp add: io_bind_def)
  next
    case (Inr a)
    then have "f a w1 = (Inr b, w')" using run mw by (simp add: io_bind_def)
    then show ?thesis using assms [of a] by (auto simp: ensures_def)
  qed
qed

lemma ensures_generate_wallet:
  "ensures (generate_wallet E self purpose network)
     (\<lambda>wallet_data.
        wallet_data ''base_addr'' = wallet_data ''base_addr_candidate''
      \<and> wallet_data ''reward_addr'' = wallet_data ''reward_addr_candidate''
      \<and> wallet_data ''base_addr'' \<noteq> None \<and> wallet_data ''reward_addr'' \<noteq> None)"
  unfolding generate_wallet_def
  by (intro ensures_bind ensures_case_prod ensures_if ensures_raise ensures_return)
     (simp add: verify_address_candidates_def)

lemma child_paths_append: "child_paths (a @ b) = child_paths a @ child_paths b"
  by (simp add: child_paths_def)

lemma derive_child_paths:
  assumes "map_of (tools self) ''cardano-address'' = Some t"
  shows "child_paths (calls (snd (derive_child E self path m1 m2 root_key w)))
           = child_paths (calls w) @ [path]"
  using assms
  by (simp add: derive_child_def io_eval child_paths_append child_paths_def
        split: prod.splits)



lemmas wallet_eval =
  generate_wallet_def get_or_create_shared_mnemonic_def mnemonic_to_root_key_def
  derive_payment_key_def derive_staking_key_def derive_child_def generate_payment_address_def
  generate_staking_address_def generate_address_candidate_def verify_address_candidates_def
  network_tag_def network_tags_def strip_def is_space_def

lemma flaky_run:
  "fst (generate_wallet (fixture_env True) fixture_self ''main'' ''mainnet'' fixture_world)
     = Inl (ClickException ''Address verification failed: base address mismatch'')"
  by (simp add: wallet_eval io_eval fixture_eval)


lemma steady_run:
  "\<exists>wallet_data. fst (generate_wallet (fixture_env False) fixture_self ''main'' ''mainnet''
       fixture_world) = Inr wallet_data
     \<and> wallet_data ''base_addr'' = Some ''addr1mykd6t''
     \<and> wallet_data ''reward_addr'' = Some ''stake16dwawz''"
  by (simp add: wallet_eval io_eval fixture_eval validate_address_def validate_address_try_def
        valid_prefixes_def bech32_eval save_wallet_files_def write_key_def chmod_def)

lemma steady_files:
  "files (snd (generate_wallet (fixture_env False) fixture_self ''main'' ''mainnet''
       fixture_world)) (wallet_file fixture_self ''main'' ''.base_addr'') = Some ''addr1mykd6t''"
  by (simp add: wallet_eval io_eval fixture_eval validate_address_def validate_address_try_def
        valid_prefixes_def bech32_eval save_wallet_files_def write_key_def chmod_def
        wallet_file_def path_join_def startswith_def)

subsection \<open>Rules for computations that ignore the files\<close>

lemma ignores_files_return: "ignores_files (io_return a)"
  by (simp add: ignores_files_def io_return_def)

lemma ignores_files_raise: "ignores_files (io_raise e)"
  by (simp add: ignores_files_def io_raise_def)

lemma ignores_files_lift: "ignores_files (lift r)"
  by (simp add: ignores_files_def lift_def)

lemma ignores_files_if:
  "ignores_files a \<Longrightarrow> ignores_files b \<Longrightarrow> ignores_files (if c then a else b)"
  by simp

lemma ignores_files_case_prod:
  "(\<And>x y. ignores_files (f x y)) \<Longrightarrow> ignores_files (case p of (x, y) \<Rightarrow> f x y)"
  by (cases p) simp

lemma ignores_files_bind:
  assumes "ignores_files m" and "\<And>a. ignores_files (f a)"
  shows "ignores_files (io_bind m f)"
  unfolding ignores_files_def
proof (intro allI)
  fix w fs md
  obtain r w1 where mw: "m w = (r, w1)" by (cases "m w")
  have m': "m (w\<lparr>files := fs, modes := md\<rparr>) = (r, w1\<lparr>files := fs, modes := md\<rparr>)"
    using assms(1) mw by (simp add: ignores_files_def)
  show "io_bind m f (w\<lparr>files := fs, modes := md\<rparr>)
          = (fst (io_bind m f w), (snd (io_bind m f w))\<lparr>files := fs, modes := md\<rparr>)"
  proof (cases r)
    case (Inl e)
    then show ?thesis using mw m' by (simp add: io_bind_def)
  next
    case (Inr a)
    have "f a (w1\<lparr>files := fs, modes := md\<rparr>)
            = (fst (f a w1), (snd (f a w1))\<lparr>files := fs, modes := md\<rparr>)"
      using assms(2) [of a] by (simp add: ignores_files_def)
    then show ?thesis using mw m' Inr by (simp add: io_bind_def)
  qed
qed

lemma ignores_files_tool_path: "ignores_files (tool_path self name)"
  by (simp add: tool_path_def ignores_files_return ignores_files_raise split: option.splits)

lemma ignores_files_read_tmp: "ignores_files (read_tmp tmp path)"
  by (simp add: read_tmp_def ignores_files_return ignores_files_raise split: option.splits)

lemma ignores_files_cli_step:
  "ignores_files (\<lambda>w. case cli_run E cmd tmp (outside w) of
         (result, tmp', x') \<Rightarrow>
           (Inr (result, tmp'), w\<lparr>calls := calls w @ [(cmd, None)], outside := x'\<rparr>))"
  by (simp add: ignores_files_def split: prod.splits)

lemma ignores_files_cli_call: "ignores_files (cli_call E self args tmp)"
  unfolding cli_call_def
  by (intro ignores_files_bind ignores_files_tool_path ignores_files_cli_step)

lemmas ignores_files_intros =
  ignores_files_bind ignores_files_return ignores_files_raise ignores_files_lift
  ignores_files_if ignores_files_case_prod ignores_files_tool_path ignores_files_read_tmp
  ignores_files_cli_call

lemma ignores_files_cli_checked: "ignores_files (cli_checked E self args msg tmp)"
  unfolding cli_checked_def by (intro ignores_files_intros)

lemma ignores_files_key_gen: "ignores_files (key_gen E self args vf sf msg tmp)"
  unfolding key_gen_def by (intro ignores_files_intros ignores_files_cli_checked)

lemma ignores_files_key_hash: "ignores_files (key_hash E self args msg tmp)"
  unfolding key_hash_def by (intro ignores_files_intros ignores_files_cli_checked)

lemma ignores_files_build_file: "ignores_files (build_file E self args msg out tmp)"
  unfolding build_file_def by (intro ignores_files_intros ignores_files_cli_checked)

lemma ignores_files_generate_keys:
  "ignores_files (generate_keys_with_cardano_cli E self purpose network)"
  unfolding generate_keys_with_cardano_cli_def Let_def
  by (intro ignores_files_intros ignores_files_key_gen ignores_files_key_hash
        ignores_files_build_file)

subsection \<open>Rules for computations that hand over no derivation path\<close>

lemma no_child_return: "issues_no_child_path (io_return a)"
  by (simp add: issues_no_child_path_def io_return_def)

lemma no_child_raise: "issues_no_child_path (io_raise e)"
  by (simp add: issues_no_child_path_def io_raise_def)

lemma no_child_lift: "issues_no_child_path (lift r)"
  by (simp add: issues_no_child_path_def lift_def)

lemma no_child_if:
  "issues_no_child_path a \<Longrightarrow> issues_no_child_path b
   \<Longrightarrow> issues_no_child_path (if c then a else b)"
  by simp

lemma no_child_case_prod:
  "(\<And>x y. issues_no_child_path (f x y)) \<Longrightarrow> issues_no_child_path (case p of (x, y) \<Rightarrow> f x y)"
  by (cases p) simp

lemma no_child_bind:
  assumes "issues_no_child_path m" and "\<And>a. issues_no_child_path (f a)"
  shows "issues_no_child_path (io_bind m f)"
  unfolding issues_no_child_path_def
proof (intro allI)
  fix w
  obtain r w1 where mw: "m w = (r, w1)" by (cases "m w")
  have m: "child_paths (calls w1) = child_paths (calls w)"
    using assms(1) mw by (auto simp: issues_no_child_path_def dest: spec [of _ w])
  show "child_paths (calls (snd (io_bind m f w))) = child_paths (calls w)"
  proof (cases r)
    case (Inl e)
    then show ?thesis using mw m by (simp add: io_bind_def)
  next
    case (Inr a)
    have "child_paths (calls (snd (f a w1))) = child_paths (calls w1)"
      using assms(2) [of a] by (simp add: issues_no_child_path_def)
    then show ?thesis using mw Inr m by (simp add: io_bind_def)
  qed
qed

lemma no_child_tool_path: "issues_no_child_path (tool_path self name)"
  by (simp add: tool_path_def no_child_return no_child_raise split: option.splits)

lemma no_child_read_tmp: "issues_no_child_path (read_tmp tmp path)"
  by (simp add: read_tmp_def no_child_return no_child_raise split: option.splits)

lemma no_child_cli_step:
  "args ! 0 \<noteq> ''key'' \<Longrightarrow>
   issues_no_child_path (\<lambda>w. case cli_run E (t # args) tmp (outside w) of
         (result, tmp', x') \<Rightarrow>
           (Inr (result, tmp'), w\<lparr>calls := calls w @ [(t # args, None)], outside := x'\<rparr>))"
  by (simp add: issues_no_child_path_def child_paths_def split: prod.splits)

lemma no_child_cli_call:
  "args ! 0 \<noteq> ''key'' \<Longrightarrow> issues_no_child_path (cli_call E self args tmp)"
  unfolding cli_call_def
  by (intro no_child_bind no_child_tool_path no_child_cli_step)

lemmas no_child_intros =
  no_child_bind no_child_return no_child_raise no_child_lift no_child_if no_child_case_prod
  no_child_tool_path no_child_read_tmp

lemma no_child_cli_checked:
  "args ! 0 \<noteq> ''key'' \<Longrightarrow> issues_no_child_path (cli_checked E self args msg tmp)"
  unfolding cli_checked_def by (intro no_child_intros no_child_cli_call)

lemma no_child_key_gen:
  "args ! 0 \<noteq> ''key'' \<Longrightarrow> issues_no_child_path (key_gen E self args vf sf msg tmp)"
  unfolding key_gen_def by (intro no_child_intros no_child_cli_checked)

lemma no_child_key_hash:
  "args ! 0 \<noteq> ''key'' \<Longrightarrow> issues_no_child_path (key_hash E self args msg tmp)"
  unfolding key_hash_def by (intro no_child_intros no_child_cli_checked)

lemma no_child_build_file:
  "args ! 0 \<noteq> ''key'' \<Longrightarrow> issues_no_child_path (build_file E self args msg out tmp)"
  unfolding build_file_def by (intro no_child_intros no_child_cli_checked)

lemma no_child_generate_keys:
  "issues_no_child_path (generate_keys_with_cardano_cli E self purpose network)"
  unfolding generate_keys_with_cardano_cli_def Let_def
  by (intro no_child_intros no_child_key_gen no_child_key_hash no_child_build_file
        no_child_cli_call)
     (simp_all add: key_gen_args_def)

lemma ensures_fails_first: "ensures m (\<lambda>_. False) \<Longrightarrow> ensures (io_bind m f) Q"
  by (auto simp: ensures_def io_bind_def split: prod.splits sum.splits)

lemma write_key_missing:
  "wallet_data key = None \<Longrightarrow> ensures (write_key path wallet_data key) (\<lambda>_. False)"
  by (simp add: ensures_def write_key_def)

lemma save_wallet_files_without_candidate:
  assumes "wallet_data ''base_addr_candidate'' = None"
  shows "ensures (save_wallet_files self purpose wallet_data) (\<lambda>_. False)"
  unfolding save_wallet_files_def
  apply (rule ensures_bind)
  apply (rule ensures_fails_first)
  apply (rule write_key_missing)
  apply (rule assms)
  done

lemma import_never_returns:
  "ensures (generate_wallet_with_import E self purpose network payment_vkey_path
      payment_skey_path stake_vkey_path stake_skey_path) (\<lambda>_. False)"
  unfolding generate_wallet_with_import_def
  by (intro ensures_bind ensures_if ensures_raise ensures_fails_first
        save_wallet_files_without_candidate) simp

lemmas import_eval =
  generate_wallet_with_import_def import_existing_keys_def import_key_def subscript_def
  lookup_def get_default_def cbor_hex_to_bech32_def encode_two_arguments_def startswith_def
  bytes_hex_def hexdigit_def hexval_def is_ascii_space_def
  generate_payment_address_def generate_staking_address_def network_tag_def network_tags_def
  strip_def is_space_def validate_address_def validate_address_try_def valid_prefixes_def
  save_wallet_files_def write_key_def chmod_def wallet_file_def path_join_def

subsection \<open>The synthetic key generator, step by step\<close>

lemma cli_call_fixture:
  "cli_call (fixture_env b) fixture_self args tmp w =
     (Inr (\<lparr>returncode = 0, stdout = ''cafe'' @ [CHR 0x0A], stderr = []\<rparr>,
           (\<lambda>p. if p \<in> set (''/bin/cardano-cli'' # args) then Some (fixture_key (outside w))
                else tmp p)),
      w\<lparr>calls := calls w @ [(''/bin/cardano-cli'' # args, None)],
        outside := Suc (outside w)\<rparr>)"
  by (simp add: cli_call_def io_eval fixture_env_def fixture_self_def fixture_cli_def)

lemma cli_checked_fixture:
  "cli_checked (fixture_env b) fixture_self args msg tmp w =
     (Inr (\<lparr>returncode = 0, stdout = ''cafe'' @ [CHR 0x0A], stderr = []\<rparr>,
           (\<lambda>p. if p \<in> set (''/bin/cardano-cli'' # args) then Some (fixture_key (outside w))
                else tmp p)),
      w\<lparr>calls := calls w @ [(''/bin/cardano-cli'' # args, None)],
        outside := Suc (outside w)\<rparr>)"
  by (simp add: cli_checked_def io_bind_def io_return_def cli_call_fixture)

lemma json_loads_fixture:
  "json_loads (fixture_env b) content = Inr (JObject [(''cborHex'', content)])"
  by (simp add: fixture_env_def)

lemma key_gen_fixture:
  assumes "vf \<in> set args" "sf \<in> set args"
  shows "key_gen (fixture_env b) fixture_self args vf sf msg tmp w =
     (Inr (fixture_key (outside w), fixture_key (outside w),
           (\<lambda>p. if p \<in> set (''/bin/cardano-cli'' # args) then Some (fixture_key (outside w))
                else tmp p)),
      w\<lparr>calls := calls w @ [(''/bin/cardano-cli'' # args, None)],
        outside := Suc (outside w)\<rparr>)"
  using assms
  by (simp add: key_gen_def io_bind_def io_return_def io_raise_def lift_def read_tmp_def
        cli_checked_fixture subscript_def json_loads_fixture)

lemma key_hash_fixture:
  "key_hash (fixture_env b) fixture_self args msg tmp w =
     (Inr (''cafe'',
           (\<lambda>p. if p \<in> set (''/bin/cardano-cli'' # args) then Some (fixture_key (outside w))
                else tmp p)),
      w\<lparr>calls := calls w @ [(''/bin/cardano-cli'' # args, None)],
        outside := Suc (outside w)\<rparr>)"
  by (simp add: key_hash_def io_bind_def io_return_def cli_checked_fixture strip_def
        is_space_def)

lemma build_file_fixture:
  assumes "out \<in> set args"
  shows "build_file (fixture_env b) fixture_self args msg out tmp w =
     (Inr (strip (fixture_key (outside w)),
           (\<lambda>p. if p \<in> set (''/bin/cardano-cli'' # args) then Some (fixture_key (outside w))
                else tmp p)),
      w\<lparr>calls := calls w @ [(''/bin/cardano-cli'' # args, None)],
        outside := Suc (outside w)\<rparr>)"
  using assms
  by (simp add: build_file_def io_bind_def io_return_def io_raise_def read_tmp_def
        cli_checked_fixture)

lemma generate_keys_fixture:
  "(\<exists>wallet_data.
      fst (generate_keys_with_cardano_cli (fixture_env b) fixture_self purpose network w)
        = Inr wallet_data
      \<and> wallet_data ''payment_skey'' = Some (fixture_key (outside w)))
   \<and> outside (snd (generate_keys_with_cardano_cli (fixture_env b) fixture_self purpose
         network w)) = outside w + 17
   \<and> files (snd (generate_keys_with_cardano_cli (fixture_env b) fixture_self purpose
         network w)) = files w"
  by (simp add: generate_keys_with_cardano_cli_def Let_def io_bind_def io_return_def
        key_gen_fixture key_hash_fixture build_file_fixture cli_call_fixture read_tmp_def
        key_gen_args_def)

subsection \<open>The commands of the address constructions\<close>

text \<open>
  Each construction that takes a network hands its tag to \<^verbatim>\<open>cardano-address\<close> after
  \<^verbatim>\<open>--network-tag\<close>. The stake-pool flow has no tag: \<open>network_param\<close> gives
  \<^verbatim>\<open>cardano-cli\<close> the flag \<^verbatim>\<open>--mainnet\<close> for \<^verbatim>\<open>mainnet\<close> and
  \<^verbatim>\<open>--testnet-magic 1\<close> for every other name.
\<close>

lemma staking_address_calls:
  "map_of (tools self) ''cardano-address'' = Some t \<Longrightarrow>
   calls (snd (generate_staking_address E self staking_vkey network w))
     = calls w @ [([t, ''address'', ''stake'', ''--network-tag'', network_tag network],
                   Some staking_vkey)]"
  by (simp add: generate_staking_address_def io_eval split: prod.splits)

lemma payment_only_address_calls:
  "map_of (tools self) ''cardano-address'' = Some t \<Longrightarrow>
   calls (snd (generate_payment_only_address E self payment_vkey network w))
     = calls w @ [([t, ''address'', ''payment'', ''--network-tag'', network_tag network],
                   Some payment_vkey)]"
  by (simp add: generate_payment_only_address_def io_eval split: prod.splits)

lemma payment_address_calls:
  "map_of (tools self) ''cardano-address'' = Some t \<Longrightarrow>
   calls (snd (generate_payment_address E self payment_vkey staking_vkey network w))
     = calls w @ base_address_calls E t payment_vkey staking_vkey (network_tag network)
                   (outside w)"
  by (simp add: generate_payment_address_def base_address_calls_def io_eval
        split: prod.splits)

lemma address_candidate_calls:
  "map_of (tools self) ''cardano-address'' = Some t \<Longrightarrow>
   calls (snd (generate_address_candidate E self payment_vkey staking_vkey network w))
     = calls w @ base_address_calls E t payment_vkey staking_vkey (network_tag network)
                   (outside w)"
  by (simp add: generate_address_candidate_def base_address_calls_def io_eval
        split: prod.splits)

lemma network_param_unknown:
  "network \<noteq> ''mainnet'' \<Longrightarrow> network_param network = [''--testnet-magic'', ''1'']"
  by (simp add: network_param_def)

lemma base_address_calls_fixture:
  "base_address_calls (fixture_env False) t pv sv tag (0::nat)
     = [([t, ''address'', ''payment'', ''--network-tag'', tag], Some pv),
        ([t, ''address'', ''stake'', ''--network-tag'', tag], Some sv),
        ([t, ''address'', ''delegation'', sv], Some ''addr1vpayment'')]"
  by (simp add: base_address_calls_def fixture_env_def fixture_run_def strip_def is_space_def)

subsection \<open>What a successful key generation has done\<close>

text \<open>
  A normal return of a step of the stake-pool flow means that its command ran, with exit
  status 0 where the source tests it, and that the files it reads were there. The rules
  below turn a normal return of the whole flow into these facts, step by step.
\<close>

lemma io_bind_InrE:
  assumes "io_bind m f w = (Inr b, w')"
  obtains a w1 where "m w = (Inr a, w1)" "f a w1 = (Inr b, w')"
  using assms by (auto simp: io_bind_def split: prod.splits sum.splits)

lemma cli_call_installed:
  assumes "map_of (tools self) ''cardano-cli'' = Some t"
  shows "cli_call E self args tmp w =
     (case cli_run E (t # args) tmp (outside w) of
        (result, tmp', x') \<Rightarrow>
          (Inr (result, tmp'), w\<lparr>calls := calls w @ [(t # args, None)], outside := x'\<rparr>))"
  using assms by (simp add: cli_call_def io_eval)

lemma cli_call_InrD:
  assumes "map_of (tools self) ''cardano-cli'' = Some t"
    and "cli_call E self args tmp w = (Inr (result, tmp'), w1)"
  shows "cli_step E (t # args) (tmp, outside w) = (tmp', outside w1)
       \<and> calls w1 = calls w @ [(t # args, None)]"
  using assms(2) unfolding cli_call_installed [OF assms(1)]
  by (auto simp: cli_step_def split: prod.splits)

lemma cli_checked_InrD:
  assumes "map_of (tools self) ''cardano-cli'' = Some t"
    and "cli_checked E self args msg tmp w = (Inr (result, tmp'), w1)"
  shows "cli_step E (t # args) (tmp, outside w) = (tmp', outside w1)
       \<and> calls w1 = calls w @ [(t # args, None)]"
proof -
  from assms(2) obtain a w0 where c: "cli_call E self args tmp w = (Inr a, w0)"
    and r: "(case a of (result, tmp') \<Rightarrow>
               if returncode result \<noteq> 0 then io_raise (ClickException (msg @ stderr result))
               else io_return (result, tmp')) w0 = (Inr (result, tmp'), w1)"
    unfolding cli_checked_def by (rule io_bind_InrE)
  obtain r0 t0 where a: "a = (r0, t0)" by (cases a)
  have "t0 = tmp' \<and> w0 = w1"
    using r unfolding a by (auto simp: io_raise_def io_return_def split: if_splits)
  then show ?thesis using cli_call_InrD [OF assms(1), of E args tmp w r0 t0 w0] c a by simp
qed

lemma key_gen_InrD:
  assumes "map_of (tools self) ''cardano-cli'' = Some t"
    and "key_gen E self args vf sf msg tmp w = (Inr (v, s, tmp'), w1)"
  shows "cli_step E (t # args) (tmp, outside w) = (tmp', outside w1)
       \<and> calls w1 = calls w @ [(t # args, None)]
       \<and> cbor_hex_of E tmp' vf = Some v \<and> cbor_hex_of E tmp' sf = Some s"
proof -
  from assms(2) obtain a w0 where c: "cli_checked E self args msg tmp w = (Inr a, w0)"
    and r: "(case a of (result, tmp') \<Rightarrow>
     io_bind (read_tmp tmp' vf) (\<lambda>vkey_content.
     io_bind (read_tmp tmp' sf) (\<lambda>skey_content.
     io_bind (lift (json_loads E vkey_content)) (\<lambda>vkey_json.
     io_bind (lift (json_loads E skey_content)) (\<lambda>skey_json.
     io_bind (lift (subscript vkey_json ''cborHex'')) (\<lambda>vkey.
     io_bind (lift (subscript skey_json ''cborHex'')) (\<lambda>skey.
     io_return (vkey, skey, tmp')))))))) w0 = (Inr (v, s, tmp'), w1)"
    unfolding key_gen_def by (rule io_bind_InrE)
  obtain r0 t0 where a: "a = (r0, t0)" by (cases a)
  have k: "t0 = tmp' \<and> w0 = w1 \<and> cbor_hex_of E t0 vf = Some v \<and> cbor_hex_of E t0 sf = Some s"
    using r unfolding a
    by (auto simp: io_bind_def io_raise_def io_return_def lift_def read_tmp_def cbor_hex_of_def
          split: option.splits sum.splits)
  then show ?thesis using cli_checked_InrD [OF assms(1), of E args msg tmp w r0 t0 w0] c a
    by auto
qed

lemma key_hash_InrD:
  assumes "map_of (tools self) ''cardano-cli'' = Some t"
    and "key_hash E self args msg tmp w = (Inr (c, tmp'), w1)"
  shows "cli_step E (t # args) (tmp, outside w) = (tmp', outside w1)
       \<and> calls w1 = calls w @ [(t # args, None)]"
proof -
  from assms(2) obtain a w0 where c: "cli_checked E self args msg tmp w = (Inr a, w0)"
    and r: "(case a of (result, tmp') \<Rightarrow> io_return (strip (stdout result), tmp')) w0
              = (Inr (c, tmp'), w1)"
    unfolding key_hash_def by (rule io_bind_InrE)
  obtain r0 t0 where a: "a = (r0, t0)" by (cases a)
  have "t0 = tmp' \<and> w0 = w1" using r unfolding a by (auto simp: io_return_def)
  then show ?thesis using cli_checked_InrD [OF assms(1), of E args msg tmp w r0 t0 w0] c a
    by simp
qed

lemma build_file_InrD:
  assumes "map_of (tools self) ''cardano-cli'' = Some t"
    and "build_file E self args msg out tmp w = (Inr (c, tmp'), w1)"
  shows "cli_step E (t # args) (tmp, outside w) = (tmp', outside w1)
       \<and> calls w1 = calls w @ [(t # args, None)]"
proof -
  from assms(2) obtain a w0 where c: "cli_checked E self args msg tmp w = (Inr a, w0)"
    and r: "(case a of (result, tmp') \<Rightarrow>
               io_bind (read_tmp tmp' out) (\<lambda>content. io_return (strip content, tmp'))) w0
              = (Inr (c, tmp'), w1)"
    unfolding build_file_def by (rule io_bind_InrE)
  obtain r0 t0 where a: "a = (r0, t0)" by (cases a)
  have "t0 = tmp' \<and> w0 = w1"
    using r unfolding a
    by (auto simp: io_bind_def io_return_def io_raise_def read_tmp_def split: option.splits)
  then show ?thesis using cli_checked_InrD [OF assms(1), of E args msg tmp w r0 t0 w0] c a
    by simp
qed

lemma key_gen_bindE:
  assumes "io_bind (key_gen E self args vf sf msg tmp) (\<lambda>(v, s, tmp'). g v s tmp') w
             = (Inr b, w')"
    and "map_of (tools self) ''cardano-cli'' = Some t"
  obtains v s tmp' w1 where
    "cli_step E (t # args) (tmp, outside w) = (tmp', outside w1)"
    "calls w1 = calls w @ [(t # args, None)]"
    "cbor_hex_of E tmp' vf = Some v" "cbor_hex_of E tmp' sf = Some s"
    "g v s tmp' w1 = (Inr b, w')"
proof -
  from assms(1) obtain a w1 where k: "key_gen E self args vf sf msg tmp w = (Inr a, w1)"
    and r: "(case a of (v, s, tmp') \<Rightarrow> g v s tmp') w1 = (Inr b, w')"
    by (rule io_bind_InrE)
  obtain v s tmp' where a: "a = (v, s, tmp')" by (cases a)
  show ?thesis
    using key_gen_InrD [OF assms(2) k [unfolded a]] r [unfolded a] by (auto intro: that)
qed

lemma key_hash_bindE:
  assumes "io_bind (key_hash E self args msg tmp) (\<lambda>(c, tmp'). g c tmp') w = (Inr b, w')"
    and "map_of (tools self) ''cardano-cli'' = Some t"
  obtains c tmp' w1 where
    "cli_step E (t # args) (tmp, outside w) = (tmp', outside w1)"
    "calls w1 = calls w @ [(t # args, None)]"
    "g c tmp' w1 = (Inr b, w')"
proof -
  from assms(1) obtain a w1 where k: "key_hash E self args msg tmp w = (Inr a, w1)"
    and r: "(case a of (c, tmp') \<Rightarrow> g c tmp') w1 = (Inr b, w')"
    by (rule io_bind_InrE)
  obtain c tmp' where a: "a = (c, tmp')" by (cases a)
  show ?thesis
    using key_hash_InrD [OF assms(2) k [unfolded a]] r [unfolded a] by (auto intro: that)
qed

lemma build_file_bindE:
  assumes "io_bind (build_file E self args msg out tmp) (\<lambda>(c, tmp'). g c tmp') w
             = (Inr b, w')"
    and "map_of (tools self) ''cardano-cli'' = Some t"
  obtains c tmp' w1 where
    "cli_step E (t # args) (tmp, outside w) = (tmp', outside w1)"
    "calls w1 = calls w @ [(t # args, None)]"
    "g c tmp' w1 = (Inr b, w')"
proof -
  from assms(1) obtain a w1 where k: "build_file E self args msg out tmp w = (Inr a, w1)"
    and r: "(case a of (c, tmp') \<Rightarrow> g c tmp') w1 = (Inr b, w')"
    by (rule io_bind_InrE)
  obtain c tmp' where a: "a = (c, tmp')" by (cases a)
  show ?thesis
    using build_file_InrD [OF assms(2) k [unfolded a]] r [unfolded a] by (auto intro: that)
qed

lemma cli_call_bindE:
  assumes "io_bind (cli_call E self args tmp) (\<lambda>(c, tmp'). g c tmp') w = (Inr b, w')"
    and "map_of (tools self) ''cardano-cli'' = Some t"
  obtains c tmp' w1 where
    "cli_step E (t # args) (tmp, outside w) = (tmp', outside w1)"
    "calls w1 = calls w @ [(t # args, None)]"
    "g c tmp' w1 = (Inr b, w')"
proof -
  from assms(1) obtain a w1 where k: "cli_call E self args tmp w = (Inr a, w1)"
    and r: "(case a of (c, tmp') \<Rightarrow> g c tmp') w1 = (Inr b, w')"
    by (rule io_bind_InrE)
  obtain c tmp' where a: "a = (c, tmp')" by (cases a)
  show ?thesis
    using cli_call_InrD [OF assms(2) k [unfolded a]] r [unfolded a] by (auto intro: that)
qed

lemma read_or_default_bindE:
  assumes "io_bind (if c then io_return p
                    else io_bind (read_tmp tmp path) (\<lambda>content. io_return (h content))) f w
             = (Inr b, w')"
  obtains a where "f a w = (Inr b, w')"
  using assms
  by (auto simp: io_bind_def io_return_def io_raise_def read_tmp_def
        split: if_splits option.splits)

lemma generate_keys_steps:
  assumes tool: "map_of (tools self) ''cardano-cli'' = Some t"
    and run: "generate_keys_with_cardano_cli E self purpose network w = (Inr wallet_data, w')"
  shows "calls w' = calls w @ map (\<lambda>cmd. (cmd, None)) (stake_pool_commands t (temp_dir E) network)
     \<and> list_all (\<lambda>(n, vkey, skey, vkey_file, skey_file).
           wallet_data vkey \<noteq> None \<and> wallet_data skey \<noteq> None
         \<and> wallet_data vkey
             = cbor_hex_of E
                 (files_after E (take n (stake_pool_commands t (temp_dir E) network)) (outside w))
                 (path_join (temp_dir E) vkey_file)
         \<and> wallet_data skey
             = cbor_hex_of E
                 (files_after E (take n (stake_pool_commands t (temp_dir E) network)) (outside w))
                 (path_join (temp_dir E) skey_file))
         [(1, ''payment_vkey'', ''payment_skey'', ''payment.vkey'', ''payment.skey''),
          (2, ''staking_vkey'', ''staking_skey'', ''stake.vkey'', ''stake.skey''),
          (9, ''cold_vkey'', ''cold_skey'', ''cc-cold.vkey'', ''cc-cold.skey''),
          (10, ''hot_vkey'', ''hot_skey'', ''cc-hot.vkey'', ''cc-hot.skey''),
          (11, ''drep_vkey'', ''drep_skey'', ''drep.vkey'', ''drep.skey''),
          (12, ''ms_payment_vkey'', ''ms_payment_skey'', ''ms_payment.vkey'', ''ms_payment.skey''),
          (13, ''ms_stake_vkey'', ''ms_stake_skey'', ''ms_stake.vkey'', ''ms_stake.skey''),
          (14, ''ms_drep_vkey'', ''ms_drep_skey'', ''ms_drep.vkey'', ''ms_drep.skey'')]"
  using run unfolding generate_keys_with_cardano_cli_def Let_def
  apply (elim key_gen_bindE [OF _ tool] key_hash_bindE [OF _ tool] build_file_bindE [OF _ tool]
      cli_call_bindE [OF _ tool])
  apply (erule read_or_default_bindE)
  apply (clarsimp simp: io_return_def stake_pool_commands_def files_after_def key_gen_args_def
      Let_def)
  done

lemma files_after_fixture:
  "files_after (fixture_env b) [cmd] (n::nat) = (\<lambda>p. if p \<in> set cmd then Some (fixture_key n) else None)"
  by (simp add: files_after_def cli_step_def fixture_env_def fixture_cli_def)

section \<open>The claims\<close>

text \<open>
  Claim C1. In the generate flow, the base address and the reward address are each
  computed a second time from the same verification keys and compared with the first
  result. Whatever the external tools answer: a bundle that \<open>generate_wallet\<close> returns
  holds a base address equal to its candidate and a reward address equal to its candidate;
  when \<open>generate_wallet\<close> ends in an exception, no file other than the shared recovery
  phrase has been written, so no wallet file of the purpose exists; and when all eight
  steps up to the candidates succeed and either comparison fails, the exception is the
  verification mismatch and the state is the one left by the last tool call.
\<close>

theorem generate_wallet_verifies_before_saving:
  assumes run: "generate_wallet E self purpose network w = (r, w')"
  shows "(\<forall>wallet_data. r = Inr wallet_data \<longrightarrow>
            wallet_data ''base_addr'' = wallet_data ''base_addr_candidate''
          \<and> wallet_data ''reward_addr'' = wallet_data ''reward_addr_candidate''
          \<and> wallet_data ''base_addr'' \<noteq> None \<and> wallet_data ''reward_addr'' \<noteq> None)
       \<and> (isl r \<longrightarrow> (\<forall>p. p \<noteq> shared_mnemonic_file self \<longrightarrow> files w' p = files w p))
       \<and> (\<forall>mnemonic root_key payment_skey payment_vkey staking_skey staking_vkey
             base_addr reward_addr base_addr_candidate reward_addr_candidate
             w1 w2 w3 w4 w5 w6 w7 w8.
             get_or_create_shared_mnemonic E self w = (Inr mnemonic, w1)
           \<and> mnemonic_to_root_key E self mnemonic w1 = (Inr root_key, w2)
           \<and> derive_payment_key E self root_key purpose w2
                 = (Inr (payment_skey, payment_vkey), w3)
           \<and> derive_staking_key E self root_key w3 = (Inr (staking_skey, staking_vkey), w4)
           \<and> generate_payment_address E self payment_vkey staking_vkey network w4
                 = (Inr base_addr, w5)
           \<and> generate_staking_address E self staking_vkey network w5 = (Inr reward_addr, w6)
           \<and> generate_address_candidate E self payment_vkey staking_vkey network w6
                 = (Inr base_addr_candidate, w7)
           \<and> generate_staking_address E self staking_vkey network w7
                 = (Inr reward_addr_candidate, w8)
           \<and> (base_addr \<noteq> base_addr_candidate \<or> reward_addr \<noteq> reward_addr_candidate)
           \<longrightarrow> (r = Inl (ClickException ''Address verification failed: base address mismatch'')
                \<or> r = Inl (ClickException
                           ''Address verification failed: reward address mismatch''))
               \<and> w' = w8)"
proof (intro conjI allI impI)
  fix wallet_data
  assume "r = Inr wallet_data"
  then have ok: "generate_wallet E self purpose network w = (Inr wallet_data, w')"
    using run by simp
  have e: "wallet_data ''base_addr'' = wallet_data ''base_addr_candidate''
      \<and> wallet_data ''reward_addr'' = wallet_data ''reward_addr_candidate''
      \<and> wallet_data ''base_addr'' \<noteq> None \<and> wallet_data ''reward_addr'' \<noteq> None"
    using ensures_generate_wallet [of E self purpose network] ok
    unfolding ensures_def by blast
  show "wallet_data ''base_addr'' = wallet_data ''base_addr_candidate''" using e by blast
  show "wallet_data ''reward_addr'' = wallet_data ''reward_addr_candidate''" using e by blast
  show "wallet_data ''base_addr'' \<noteq> None" using e by blast
  show "wallet_data ''reward_addr'' \<noteq> None" using e by blast
next
  fix p
  assume "isl r" and "p \<noteq> shared_mnemonic_file self"
  then show "files w' p = files w p"
    using fww_generate_wallet [of self E purpose network] run
    unfolding fails_without_writing_def by (auto dest!: spec [of _ w])
next
  fix mnemonic root_key payment_skey payment_vkey staking_skey staking_vkey
    base_addr reward_addr base_addr_candidate reward_addr_candidate
    and w1 w2 w3 w4 w5 w6 w7 w8 :: "'a world"
  assume steps: "get_or_create_shared_mnemonic E self w = (Inr mnemonic, w1)
           \<and> mnemonic_to_root_key E self mnemonic w1 = (Inr root_key, w2)
           \<and> derive_payment_key E self root_key purpose w2
                 = (Inr (payment_skey, payment_vkey), w3)
           \<and> derive_staking_key E self root_key w3 = (Inr (staking_skey, staking_vkey), w4)
           \<and> generate_payment_address E self payment_vkey staking_vkey network w4
                 = (Inr base_addr, w5)
           \<and> generate_staking_address E self staking_vkey network w5 = (Inr reward_addr, w6)
           \<and> generate_address_candidate E self payment_vkey staking_vkey network w6
                 = (Inr base_addr_candidate, w7)
           \<and> generate_staking_address E self staking_vkey network w7
                 = (Inr reward_addr_candidate, w8)
           \<and> (base_addr \<noteq> base_addr_candidate \<or> reward_addr \<noteq> reward_addr_candidate)"
  have "generate_wallet E self purpose network w =
          (if base_addr \<noteq> base_addr_candidate
           then (Inl (ClickException ''Address verification failed: base address mismatch''), w8)
           else (Inl (ClickException ''Address verification failed: reward address mismatch''),
                 w8))"
    using steps
    by (auto simp: generate_wallet_def io_bind_def io_raise_def verify_address_candidates_def)
  then show "r = Inl (ClickException ''Address verification failed: base address mismatch'')
                \<or> r = Inl (ClickException
                           ''Address verification failed: reward address mismatch'')"
    and "w' = w8"
    using run by (auto split: if_splits)
qed

theorem generate_wallet_verifies_before_saving_witness:
  "fst (generate_wallet (fixture_env True) fixture_self ''main'' ''mainnet'' fixture_world)
     = Inl (ClickException ''Address verification failed: base address mismatch'')
   \<and> files (snd (generate_wallet (fixture_env True) fixture_self ''main'' ''mainnet''
         fixture_world)) (wallet_file fixture_self ''main'' ''.base_addr'') = None
   \<and> (\<exists>wallet_data.
         fst (generate_wallet (fixture_env False) fixture_self ''main'' ''mainnet''
           fixture_world) = Inr wallet_data
       \<and> wallet_data ''base_addr'' = Some ''addr1mykd6t''
       \<and> wallet_data ''base_addr_candidate'' = Some ''addr1mykd6t'')
   \<and> files (snd (generate_wallet (fixture_env False) fixture_self ''main'' ''mainnet''
         fixture_world)) (wallet_file fixture_self ''main'' ''.base_addr'')
       = Some ''addr1mykd6t''"
proof -
  let ?F = "generate_wallet (fixture_env True) fixture_self ''main'' ''mainnet'' fixture_world"
  let ?S = "generate_wallet (fixture_env False) fixture_self ''main'' ''mainnet'' fixture_world"
  have p: "wallet_file fixture_self ''main'' ''.base_addr'' \<noteq> shared_mnemonic_file fixture_self"
    by (simp add: wallet_file_def path_join_def startswith_def fixture_self_def)
  have f: "?F = (fst ?F, snd ?F)" and s: "?S = (fst ?S, snd ?S)" by simp_all
  have fails: "isl (fst ?F)" by (simp add: flaky_run)
  have "files (snd ?F) (wallet_file fixture_self ''main'' ''.base_addr'')
               = files fixture_world (wallet_file fixture_self ''main'' ''.base_addr'')"
    using generate_wallet_verifies_before_saving
      [OF f, THEN conjunct2, THEN conjunct1, rule_format, OF fails p] .
  then have none: "files (snd ?F) (wallet_file fixture_self ''main'' ''.base_addr'') = None"
    by (simp add: fixture_world_def)
  obtain wallet_data where ok: "fst ?S = Inr wallet_data"
    and b: "wallet_data ''base_addr'' = Some ''addr1mykd6t''"
    using steady_run by blast
  have "wallet_data ''base_addr'' = wallet_data ''base_addr_candidate''"
    using generate_wallet_verifies_before_saving
      [OF s, THEN conjunct1, rule_format, OF ok, THEN conjunct1] .
  then have c: "wallet_data ''base_addr_candidate'' = Some ''addr1mykd6t''" using b by simp
  have "\<exists>wallet_data.
         fst ?S = Inr wallet_data
       \<and> wallet_data ''base_addr'' = Some ''addr1mykd6t''
       \<and> wallet_data ''base_addr_candidate'' = Some ''addr1mykd6t''"
    using ok b c by blast
  then show ?thesis using flaky_run none steady_files by simp
qed

text \<open>
  Claim C2. The claim says the eight key pairs of the full stake-pool bundle are derived
  from the shared recovery phrase, so that generating the bundle twice gives the same
  keys. \<open>generate_stake_pool_files\<close> leaves all key generation to
  \<open>generate_keys_with_cardano_cli\<close>, which runs the key generators of
  \<^verbatim>\<open>cardano-cli\<close>. With a tool that generates fresh keys on every call, two runs for
  the same ticker, with the same stored recovery phrase, give different payment signing
  keys.
\<close>

theorem stake_pool_bundle_twice_differs:
  "(case fst (generate_keys_with_cardano_cli (fixture_env False) fixture_self ''pool'' ''mainnet''
        (fixture_world\<lparr>files := [shared_mnemonic_file fixture_self \<mapsto> fixture_phrase]\<rparr>)) of
      Inl e \<Rightarrow> None | Inr wallet_data \<Rightarrow> wallet_data ''payment_skey'') = Some ''5820''
   \<and> (case fst (generate_keys_with_cardano_cli (fixture_env False) fixture_self ''pool'' ''mainnet''
        (snd (generate_keys_with_cardano_cli (fixture_env False) fixture_self ''pool'' ''mainnet''
           (fixture_world\<lparr>files := [shared_mnemonic_file fixture_self \<mapsto> fixture_phrase]\<rparr>)))) of
      Inl e \<Rightarrow> None | Inr wallet_data \<Rightarrow> wallet_data ''payment_skey'')
       = Some (''5820'' @ replicate 17 CHR ''a'')
   \<and> files (snd (generate_keys_with_cardano_cli (fixture_env False) fixture_self ''pool'' ''mainnet''
         (fixture_world\<lparr>files := [shared_mnemonic_file fixture_self \<mapsto> fixture_phrase]\<rparr>)))
         (shared_mnemonic_file fixture_self) = Some fixture_phrase"
proof -
  let ?w0 = "(fixture_world\<lparr>files := [shared_mnemonic_file fixture_self \<mapsto> fixture_phrase]\<rparr>)"
  let ?r1 = "generate_keys_with_cardano_cli (fixture_env False) fixture_self ''pool'' ''mainnet'' ?w0"
  let ?r2 = "generate_keys_with_cardano_cli (fixture_env False) fixture_self ''pool'' ''mainnet'' (snd ?r1)"
  have o0: "outside ?w0 = 0" by (simp add: fixture_world_def)
  note g1 = generate_keys_fixture [of False "''pool''" "''mainnet''" ?w0]
  note g2 = generate_keys_fixture [of False "''pool''" "''mainnet''" "snd ?r1"]
  have o1: "outside (snd ?r1) = 17" using g1 o0 by simp
  obtain d1 where d1: "fst ?r1 = Inr d1" "d1 ''payment_skey'' = Some (fixture_key 0)"
    using g1 o0 by auto
  obtain d2 where d2: "fst ?r2 = Inr d2" "d2 ''payment_skey'' = Some (fixture_key 17)"
    using g2 o1 by auto
  have k0: "fixture_key 0 = ''5820''" by (simp add: fixture_key_def)
  have k17: "fixture_key 17 = ''5820'' @ replicate 17 CHR ''a''" by (simp add: fixture_key_def)
  have f: "files (snd ?r1) (shared_mnemonic_file fixture_self) = Some fixture_phrase"
    using g1 by (simp add: fixture_world_def)
  show ?thesis using d1 d2 k0 k17 f by simp
qed

text \<open>
  Claim C2, as amended. The eight key pairs of the full stake-pool bundle are generated by
  \<^verbatim>\<open>cardano-cli\<close>, not derived from the shared recovery phrase. When
  \<open>generate_keys_with_cardano_cli\<close> returns a bundle, it has run the seventeen
  commands of \<open>stake_pool_commands\<close>, the eight key generation commands among them,
  in that order and no other command; and each verification key and signing key of the
  bundle is the \<^verbatim>\<open>cborHex\<close> member of the key file that the tool had written when
  the key generation command of the role returned. Key generation neither reads nor
  writes the files of the wallet directory, the shared recovery phrase among them: its
  result is the same whatever the files hold, and it leaves them as they were. It hands no
  derivation path to any tool.
\<close>

theorem stake_pool_keys_come_from_the_tool:
  assumes tool: "map_of (tools self) ''cardano-cli'' = Some t"
    and run: "generate_keys_with_cardano_cli E self purpose network w = (Inr wallet_data, w')"
  shows "calls w' = calls w @ map (\<lambda>cmd. (cmd, None)) (stake_pool_commands t (temp_dir E) network)
     \<and> list_all (\<lambda>(n, vkey, skey, vkey_file, skey_file).
           wallet_data vkey \<noteq> None \<and> wallet_data skey \<noteq> None
         \<and> wallet_data vkey
             = cbor_hex_of E
                 (files_after E (take n (stake_pool_commands t (temp_dir E) network)) (outside w))
                 (path_join (temp_dir E) vkey_file)
         \<and> wallet_data skey
             = cbor_hex_of E
                 (files_after E (take n (stake_pool_commands t (temp_dir E) network)) (outside w))
                 (path_join (temp_dir E) skey_file))
         [(1, ''payment_vkey'', ''payment_skey'', ''payment.vkey'', ''payment.skey''),
          (2, ''staking_vkey'', ''staking_skey'', ''stake.vkey'', ''stake.skey''),
          (9, ''cold_vkey'', ''cold_skey'', ''cc-cold.vkey'', ''cc-cold.skey''),
          (10, ''hot_vkey'', ''hot_skey'', ''cc-hot.vkey'', ''cc-hot.skey''),
          (11, ''drep_vkey'', ''drep_skey'', ''drep.vkey'', ''drep.skey''),
          (12, ''ms_payment_vkey'', ''ms_payment_skey'', ''ms_payment.vkey'', ''ms_payment.skey''),
          (13, ''ms_stake_vkey'', ''ms_stake_skey'', ''ms_stake.vkey'', ''ms_stake.skey''),
          (14, ''ms_drep_vkey'', ''ms_drep_skey'', ''ms_drep.vkey'', ''ms_drep.skey'')]
     \<and> (\<forall>v f md.
           generate_keys_with_cardano_cli E self purpose network (v\<lparr>files := f, modes := md\<rparr>)
             = (fst (generate_keys_with_cardano_cli E self purpose network v),
                (snd (generate_keys_with_cardano_cli E self purpose network v))
                  \<lparr>files := f, modes := md\<rparr>))
     \<and> (\<forall>v. files (snd (generate_keys_with_cardano_cli E self purpose network v)) = files v)
     \<and> (\<forall>v. child_paths (calls (snd (generate_keys_with_cardano_cli E self purpose network v)))
             = child_paths (calls v))"
proof -
  let ?g = "generate_keys_with_cardano_cli E self purpose network"
  note steps = generate_keys_steps [OF tool run]
  have i: "?g (v\<lparr>files := fs, modes := ms\<rparr>) = (fst (?g v), (snd (?g v))\<lparr>files := fs, modes := ms\<rparr>)"
    for v fs ms
    using ignores_files_generate_keys [of E self purpose network]
    unfolding ignores_files_def by blast
  have k: "files (snd (?g v)) = files v" for v
  proof -
    have same: "v\<lparr>files := files v, modes := modes v\<rparr> = v" by simp
    have "?g (v\<lparr>files := files v, modes := modes v\<rparr>)
            = (fst (?g v), (snd (?g v))\<lparr>files := files v, modes := modes v\<rparr>)"
      by (rule i)
    then have "snd (?g v)
            = snd (fst (?g v), (snd (?g v))\<lparr>files := files v, modes := modes v\<rparr>)"
      unfolding same by (rule arg_cong [where f = snd])
    then have s: "snd (?g v) = (snd (?g v))\<lparr>files := files v, modes := modes v\<rparr>"
      by (simp only: snd_conv)
    have "files (snd (?g v)) = files ((snd (?g v))\<lparr>files := files v, modes := modes v\<rparr>)"
      using s by (rule arg_cong [where f = files])
    then show ?thesis by simp
  qed
  have c: "child_paths (calls (snd (?g v))) = child_paths (calls v)" for v
    using no_child_generate_keys [of E self purpose network]
    unfolding issues_no_child_path_def by blast
  show ?thesis
  proof (intro conjI allI)
    show "calls w' = calls w @ map (\<lambda>cmd. (cmd, None)) (stake_pool_commands t (temp_dir E) network)"
      by (rule steps [THEN conjunct1])
  qed (rule steps [THEN conjunct2], rule i, rule k, rule c)
qed

theorem stake_pool_keys_come_from_the_tool_witness:
  "map_of (tools fixture_self) ''cardano-cli'' = Some ''/bin/cardano-cli''
   \<and> (\<exists>wallet_data.
         generate_keys_with_cardano_cli (fixture_env False) fixture_self ''pool'' ''mainnet''
           fixture_world
         = (Inr wallet_data,
            snd (generate_keys_with_cardano_cli (fixture_env False) fixture_self ''pool''
                   ''mainnet'' fixture_world))
       \<and> wallet_data ''payment_vkey'' = Some ''5820''
       \<and> wallet_data ''payment_skey'' = Some ''5820'')
   \<and> calls (snd (generate_keys_with_cardano_cli (fixture_env False) fixture_self ''pool''
         ''mainnet'' fixture_world))
       = map (\<lambda>cmd. (cmd, None))
           (stake_pool_commands ''/bin/cardano-cli'' ''/tmp/tmpdir'' ''mainnet'')"
proof -
  let ?r = "generate_keys_with_cardano_cli (fixture_env False) fixture_self ''pool'' ''mainnet''
              fixture_world"
  have t: "map_of (tools fixture_self) ''cardano-cli'' = Some ''/bin/cardano-cli''"
    by (simp add: fixture_self_def)
  have w: "calls fixture_world = []" "outside fixture_world = 0"
    by (simp_all add: fixture_world_def)
  have d: "temp_dir (fixture_env False) = ''/tmp/tmpdir''" by (simp add: fixture_env_def)
  obtain wallet_data where ok: "fst ?r = Inr wallet_data"
    using generate_keys_fixture [of False "''pool''" "''mainnet''" fixture_world] by blast
  have run: "?r = (Inr wallet_data, snd ?r)" using ok [symmetric] by simp
  note s = stake_pool_keys_come_from_the_tool [OF t run]
  have c: "calls (snd ?r) = map (\<lambda>cmd. (cmd, None))
           (stake_pool_commands ''/bin/cardano-cli'' ''/tmp/tmpdir'' ''mainnet'')"
    using s [THEN conjunct1] w d by simp
  have one: "take (Suc 0) (stake_pool_commands ''/bin/cardano-cli'' ''/tmp/tmpdir'' ''mainnet'')
      = [[''/bin/cardano-cli'', ''address'', ''key-gen'', ''--verification-key-file'',
          ''/tmp/tmpdir/payment.vkey'', ''--signing-key-file'', ''/tmp/tmpdir/payment.skey'']]"
    by (simp add: stake_pool_commands_def Let_def path_join_def startswith_def)
  have p: "path_join ''/tmp/tmpdir'' ''payment.vkey'' = ''/tmp/tmpdir/payment.vkey''"
    "path_join ''/tmp/tmpdir'' ''payment.skey'' = ''/tmp/tmpdir/payment.skey''"
    by (simp_all add: path_join_def startswith_def)
  have k: "wallet_data ''payment_vkey'' = Some ''5820''
         \<and> wallet_data ''payment_skey'' = Some ''5820''"
    using s [THEN conjunct2, THEN conjunct1] w d
    by (simp add: one p files_after_fixture cbor_hex_of_def json_loads_fixture subscript_def
          fixture_key_def)
  show ?thesis using t run c k by blast
qed

text \<open>
  Claim C3. The claim says the import flow verifies its base and reward addresses by
  recomputation, as the generate flow does. \<open>generate_wallet_with_import\<close> builds each
  address once and never calls \<open>generate_address_candidate\<close> or
  \<open>verify_address_candidates\<close>; its bundle has no candidate entries, so
  \<open>save_wallet_files\<close> writes the unverified base address and then raises
  \<^verbatim>\<open>KeyError\<close> on \<^verbatim>\<open>base_addr_candidate\<close>. The flow never returns normally, for
  any input; the instance shows the four tool calls made and the file written.
\<close>

theorem import_flow_skips_verification:
  "isl (fst (generate_wallet_with_import E self purpose network payment_vkey_path
          payment_skey_path stake_vkey_path stake_skey_path w))
   \<and> fst (generate_wallet_with_import (fixture_env True) fixture_self ''main'' ''mainnet''
          (Some ''/keys/payment.vkey'') None (Some ''/keys/stake.vkey'') None
          (fixture_world\<lparr>files := [''/keys/payment.vkey'' \<mapsto> ''5820aa'',
                                   ''/keys/stake.vkey'' \<mapsto> ''5820bb'']\<rparr>))
       = Inl (KeyError ''base_addr_candidate'')
   \<and> files (snd (generate_wallet_with_import (fixture_env True) fixture_self ''main''
          ''mainnet'' (Some ''/keys/payment.vkey'') None (Some ''/keys/stake.vkey'') None
          (fixture_world\<lparr>files := [''/keys/payment.vkey'' \<mapsto> ''5820aa'',
                                   ''/keys/stake.vkey'' \<mapsto> ''5820bb'']\<rparr>)))
         ''/home/spo/.CSPO_DEMO/main/DEMO-main.base_addr''
       = Some ''addr1mykd6t''
   \<and> calls (snd (generate_wallet_with_import (fixture_env True) fixture_self ''main''
          ''mainnet'' (Some ''/keys/payment.vkey'') None (Some ''/keys/stake.vkey'') None
          (fixture_world\<lparr>files := [''/keys/payment.vkey'' \<mapsto> ''5820aa'',
                                   ''/keys/stake.vkey'' \<mapsto> ''5820bb'']\<rparr>)))
       = [([''/bin/cardano-address'', ''address'', ''payment'', ''--network-tag'', ''1''],
           Some ''addr_vk1aa''),
          ([''/bin/cardano-address'', ''address'', ''stake'', ''--network-tag'', ''1''],
           Some ''stake_vk1bb''),
          ([''/bin/cardano-address'', ''address'', ''delegation'', ''stake_vk1bb''],
           Some ''addr1vpayment''),
          ([''/bin/cardano-address'', ''address'', ''stake'', ''--network-tag'', ''1''],
           Some ''stake_vk1bb'')]"
proof (intro conjI)
  show "isl (fst (generate_wallet_with_import E self purpose network payment_vkey_path
          payment_skey_path stake_vkey_path stake_skey_path w))"
  proof (cases "generate_wallet_with_import E self purpose network payment_vkey_path
          payment_skey_path stake_vkey_path stake_skey_path w")
    case (Pair r w')
    then show ?thesis
      using import_never_returns [of E self purpose network payment_vkey_path
          payment_skey_path stake_vkey_path stake_skey_path]
      by (cases r) (auto simp: ensures_def)
  qed
qed (simp_all add: import_eval io_eval fixture_eval bech32_eval)

text \<open>
  Claim C4. The claim says that \<open>generate_proper_credential_hash\<close> returns 56 hex
  characters for every input. It does not: an input that the package's
  \<^verbatim>\<open>decode("addr_vkh", ...)\<close> accepts with a payload of fewer than 28 bytes is cut
  by \<^verbatim>\<open>key_bytes[:28]\<close> to what it has. The string below decodes to the two bytes
  \<open>ab cd\<close>, and the result has four characters.
\<close>

theorem credential_hash_short:
  "generate_proper_credential_hash E ''addr_vkh1p40xse4grp6'' = ''abcd''
   \<and> length (generate_proper_credential_hash E ''addr_vkh1p40xse4grp6'') \<noteq> 56"
  by (simp add: generate_proper_credential_hash_def generate_proper_credential_hash_try_def
        key_prefixes_def bech32_eval segwit_eval bytes_hex_def hexdigit_def)

text \<open>
  Claim C5. The claim says the five attempts are made in order and the first that
  applies wins. The source is written that way, but \<^verbatim>\<open>bech32.decode\<close> never returns
  \<^verbatim>\<open>None\<close>: for an input that is not a segwit-style string of prefix \<^verbatim>\<open>addr_vkh\<close> it
  returns \<^verbatim>\<open>(None, None)\<close>, the test \<^verbatim>\<open>decoded is not None\<close> succeeds in the first
  round of the loop, and \<^verbatim>\<open>bytes(None)\<close> raises into the SHA-256 fallback. So for every
  input that is not 56 characters long the result is either the decoded payload under
  \<^verbatim>\<open>addr_vkh\<close> or the fallback; the compact-encoding attempt and the raw-hex attempt
  are never reached. A compact-encoded 32-byte key (\<^verbatim>\<open>5820\<close> and 64 hex digits), to
  which the third attempt applies, gets the fallback hash of the whole string.
\<close>

theorem credential_hash_order:
  "generate_proper_credential_hash E key_data =
     (if length key_data = 56 then key_data
      else (case snd (decode ''addr_vkh'' key_data) of
              Some key_bytes \<Rightarrow> bytes_hex (take 28 key_bytes)
            | None \<Rightarrow> credential_hash_fallback E key_data))
   \<and> generate_proper_credential_hash E
         ''5820abababababababababababababababababababababababababababababababab''
       = credential_hash_fallback E
           ''5820abababababababababababababababababababababababababababababababab''
   \<and> startswith ''58''
         ''5820abababababababababababababababababababababababababababababababab''"
proof (intro conjI)
  show "generate_proper_credential_hash E key_data =
     (if length key_data = 56 then key_data
      else (case snd (decode ''addr_vkh'' key_data) of
              Some key_bytes \<Rightarrow> bytes_hex (take 28 key_bytes)
            | None \<Rightarrow> credential_hash_fallback E key_data))"
    by (simp add: generate_proper_credential_hash_def generate_proper_credential_hash_try_def
          credential_hash_prefixes_first split: option.splits)
  show "generate_proper_credential_hash E
         ''5820abababababababababababababababababababababababababababababababab''
       = credential_hash_fallback E
           ''5820abababababababababababababababababababababababababababababababab''"
    by (simp add: generate_proper_credential_hash_def generate_proper_credential_hash_try_def
          key_prefixes_def bech32_eval decode_def)
  show "startswith ''58''
         ''5820abababababababababababababababababababababababababababababababab''"
    by (simp add: startswith_def)
qed

text \<open>
  Claim C6. \<open>validate_address\<close> is true exactly when the package's
  \<^verbatim>\<open>bech32_decode\<close> accepts the string (well-formed, checksum passing) and the
  human-readable prefix is one of \<^verbatim>\<open>addr\<close>, \<^verbatim>\<open>addr_test\<close>, \<^verbatim>\<open>stake\<close>,
  \<^verbatim>\<open>stake_test\<close>; it is false for every other string, the empty one included, and the
  \<^verbatim>\<open>try\<close> block never raises. The instances are a base address of 103 characters,
  which is accepted, and the same address cut short by one character, which is not.
\<close>

theorem validate_address_iff:
  "(validate_address a \<longleftrightarrow>
      (\<exists>hrp data. bech32_decode a = (Some hrp, Some data)
         \<and> hrp \<in> {''addr'', ''addr_test'', ''stake'', ''stake_test''}))
   \<and> (\<exists>b. validate_address_try a = Inr b)
   \<and> \<not> validate_address []
   \<and> validate_address
         ''addr1qx2fxv2umyhttkxyxp8x0dlpdt3k6cwng5pxj3jhsydzer3n0d3vllmyqwsx5wktcd8cc3sq835lu7drv2xwl2wywfgse35a3x''
   \<and> \<not> validate_address
         ''addr1qx2fxv2umyhttkxyxp8x0dlpdt3k6cwng5pxj3jhsydzer3n0d3vllmyqwsx5wktcd8cc3sq835lu7drv2xwl2wywfgse35a3''"
proof (intro conjI)
  show "validate_address a \<longleftrightarrow>
      (\<exists>hrp data. bech32_decode a = (Some hrp, Some data)
         \<and> hrp \<in> {''addr'', ''addr_test'', ''stake'', ''stake_test''})"
    by (cases "bech32_decode a")
       (auto simp: validate_address_def validate_address_try_def valid_prefixes_def
          split: option.splits)
  show "\<exists>b. validate_address_try a = Inr b" by (rule validate_address_try_total)
  show "\<not> validate_address []"
    by (simp add: validate_address_def validate_address_try_def bech32_eval)
  show "validate_address
         ''addr1qx2fxv2umyhttkxyxp8x0dlpdt3k6cwng5pxj3jhsydzer3n0d3vllmyqwsx5wktcd8cc3sq835lu7drv2xwl2wywfgse35a3x''"
    by (simp add: validate_address_def validate_address_try_def valid_prefixes_def bech32_eval)
  show "\<not> validate_address
         ''addr1qx2fxv2umyhttkxyxp8x0dlpdt3k6cwng5pxj3jhsydzer3n0d3vllmyqwsx5wktcd8cc3sq835lu7drv2xwl2wywfgse35a3''"
    by (simp add: validate_address_def validate_address_try_def valid_prefixes_def bech32_eval)
qed

text \<open>
  Claim C7. For each of the network names \<^verbatim>\<open>mainnet\<close>, \<^verbatim>\<open>testnet\<close>,
  \<^verbatim>\<open>preview\<close> and \<^verbatim>\<open>preprod\<close>, every address construction hands the tool the
  tag of the name after \<^verbatim>\<open>--network-tag\<close>: 1 for \<^verbatim>\<open>mainnet\<close>, 0 for the three
  others. The stake address and the payment-only address are one command with that tag;
  the base address and its candidate are the commands of \<open>base_address_calls\<close> with
  that tag. Address construction for \<^verbatim>\<open>preview\<close> and for \<^verbatim>\<open>preprod\<close> is the same
  computation as for \<^verbatim>\<open>testnet\<close>.
\<close>

theorem network_tag_known:
  assumes "map_of (tools self) ''cardano-address'' = Some t"
  shows "list_all (\<lambda>(network, tag).
             network_tag network = tag
           \<and> calls (snd (generate_staking_address E self sv network w))
               = calls w @ [([t, ''address'', ''stake'', ''--network-tag'', tag], Some sv)]
           \<and> calls (snd (generate_payment_only_address E self pv network w))
               = calls w @ [([t, ''address'', ''payment'', ''--network-tag'', tag], Some pv)]
           \<and> calls (snd (generate_payment_address E self pv sv network w))
               = calls w @ base_address_calls E t pv sv tag (outside w)
           \<and> calls (snd (generate_address_candidate E self pv sv network w))
               = calls w @ base_address_calls E t pv sv tag (outside w))
          [(''mainnet'', ''1''), (''testnet'', ''0''), (''preview'', ''0''), (''preprod'', ''0'')]
     \<and> network_tag ''mainnet'' = ''1'' \<and> network_tag ''testnet'' = ''0''
     \<and> network_tag ''preview'' = ''0'' \<and> network_tag ''preprod'' = ''0''
     \<and> generate_payment_address E self pv sv ''preview'' = generate_payment_address E self pv sv ''testnet''
     \<and> generate_payment_address E self pv sv ''preprod'' = generate_payment_address E self pv sv ''testnet''
     \<and> generate_staking_address E self sv ''preview'' = generate_staking_address E self sv ''testnet''
     \<and> generate_staking_address E self sv ''preprod'' = generate_staking_address E self sv ''testnet''"
proof -
  have traces: "list_all (\<lambda>(network, tag).
             network_tag network = tag
           \<and> calls (snd (generate_staking_address E self sv network w))
               = calls w @ [([t, ''address'', ''stake'', ''--network-tag'', tag], Some sv)]
           \<and> calls (snd (generate_payment_only_address E self pv network w))
               = calls w @ [([t, ''address'', ''payment'', ''--network-tag'', tag], Some pv)]
           \<and> calls (snd (generate_payment_address E self pv sv network w))
               = calls w @ base_address_calls E t pv sv tag (outside w)
           \<and> calls (snd (generate_address_candidate E self pv sv network w))
               = calls w @ base_address_calls E t pv sv tag (outside w))
          [(''mainnet'', ''1''), (''testnet'', ''0''), (''preview'', ''0''), (''preprod'', ''0'')]"
    by (simp add: staking_address_calls [OF assms] payment_only_address_calls [OF assms]
          payment_address_calls [OF assms] address_candidate_calls [OF assms]
          network_tag_values)
  have same: "generate_payment_address E self pv sv ''preview'' = generate_payment_address E self pv sv ''testnet''
     \<and> generate_payment_address E self pv sv ''preprod'' = generate_payment_address E self pv sv ''testnet''
     \<and> generate_staking_address E self sv ''preview'' = generate_staking_address E self sv ''testnet''
     \<and> generate_staking_address E self sv ''preprod'' = generate_staking_address E self sv ''testnet''"
    unfolding generate_payment_address_def generate_staking_address_def network_tag_values
    by simp
  show ?thesis using traces same network_tag_values by (intro conjI) simp_all
qed

theorem network_tag_known_witness:
  "map_of (tools fixture_self) ''cardano-address'' = Some ''/bin/cardano-address''
   \<and> calls (snd (generate_staking_address (fixture_env False) fixture_self ''sv'' ''preview''
         fixture_world))
       = [([''/bin/cardano-address'', ''address'', ''stake'', ''--network-tag'', ''0''],
           Some ''sv'')]
   \<and> calls (snd (generate_staking_address (fixture_env False) fixture_self ''sv'' ''mainnet''
         fixture_world))
       = [([''/bin/cardano-address'', ''address'', ''stake'', ''--network-tag'', ''1''],
           Some ''sv'')]
   \<and> calls (snd (generate_payment_address (fixture_env False) fixture_self ''pv'' ''sv''
         ''preprod'' fixture_world))
       = [([''/bin/cardano-address'', ''address'', ''payment'', ''--network-tag'', ''0''],
           Some ''pv''),
          ([''/bin/cardano-address'', ''address'', ''stake'', ''--network-tag'', ''0''],
           Some ''sv''),
          ([''/bin/cardano-address'', ''address'', ''delegation'', ''sv''],
           Some ''addr1vpayment'')]"
proof -
  have t: "map_of (tools fixture_self) ''cardano-address'' = Some ''/bin/cardano-address''"
    by (simp add: fixture_self_def)
  have w: "calls fixture_world = []" "outside fixture_world = 0"
    by (simp_all add: fixture_world_def)
  note k = network_tag_known [OF t, of "fixture_env False" "''sv''" fixture_world "''pv''",
      THEN conjunct1]
  show ?thesis using k t w by (simp add: base_address_calls_fixture)
qed

text \<open>
  Claim C8. Each of the eight derivation methods hands the tool one \<^verbatim>\<open>key child\<close>
  command, whose path is a constant of the method: it depends neither on the root key,
  nor on the purpose, nor on the state of the world or of the tool.
\<close>

theorem derivation_paths_fixed:
  assumes "map_of (tools self) ''cardano-address'' = Some t"
  shows "child_paths (calls (snd (derive_payment_key E self root_key purpose w)))
           = child_paths (calls w) @ [''1852H/1815H/0H/0/0'']
     \<and> child_paths (calls (snd (derive_cold_key E self root_key w)))
           = child_paths (calls w) @ [''1852H/1815H/0H/0/0'']
     \<and> child_paths (calls (snd (derive_staking_key E self root_key w)))
           = child_paths (calls w) @ [''1852H/1815H/0H/2/0'']
     \<and> child_paths (calls (snd (derive_hot_key E self root_key w)))
           = child_paths (calls w) @ [''1852H/1815H/0H/2/0'']
     \<and> child_paths (calls (snd (derive_drep_key E self root_key w)))
           = child_paths (calls w) @ [''1852H/1815H/0H/3/0'']
     \<and> child_paths (calls (snd (derive_ms_payment_key E self root_key w)))
           = child_paths (calls w) @ [''1852H/1815H/0H/4/0'']
     \<and> child_paths (calls (snd (derive_ms_stake_key E self root_key w)))
           = child_paths (calls w) @ [''1852H/1815H/0H/5/0'']
     \<and> child_paths (calls (snd (derive_ms_drep_key E self root_key w)))
           = child_paths (calls w) @ [''1852H/1815H/0H/6/0'']"
  unfolding derive_payment_key_def derive_cold_key_def derive_staking_key_def
    derive_hot_key_def derive_drep_key_def derive_ms_payment_key_def derive_ms_stake_key_def
    derive_ms_drep_key_def
  by (simp add: derive_child_paths [OF assms])

theorem derivation_paths_fixed_witness:
  "map_of (tools fixture_self) ''cardano-address'' = Some ''/bin/cardano-address''
   \<and> child_paths (calls (snd (derive_drep_key (fixture_env False) fixture_self ''root_xsk''
         fixture_world))) = [''1852H/1815H/0H/3/0'']
   \<and> child_paths (calls (snd (derive_payment_key (fixture_env False) fixture_self ''root_xsk''
         ''main'' fixture_world))) = [''1852H/1815H/0H/0/0'']
   \<and> calls (snd (derive_cold_key (fixture_env False) fixture_self ''root_xsk'' fixture_world))
       = [([''/bin/cardano-address'', ''key'', ''child'', ''1852H/1815H/0H/0/0''],
           Some ''root_xsk''),
          ([''/bin/cardano-address'', ''key'', ''public'', ''--with-chain-code''],
           Some ''xsk/1852H/1815H/0H/0/0'')]"
proof -
  have t: "map_of (tools fixture_self) ''cardano-address'' = Some ''/bin/cardano-address''"
    by (simp add: fixture_self_def)
  have c: "child_paths (calls fixture_world) = []"
    by (simp add: fixture_world_def child_paths_def)
  have tr: "calls (snd (derive_cold_key (fixture_env False) fixture_self ''root_xsk''
               fixture_world))
       = [([''/bin/cardano-address'', ''key'', ''child'', ''1852H/1815H/0H/0/0''],
           Some ''root_xsk''),
          ([''/bin/cardano-address'', ''key'', ''public'', ''--with-chain-code''],
           Some ''xsk/1852H/1815H/0H/0/0'')]"
    by (simp add: derive_cold_key_def derive_child_def io_eval fixture_eval strip_def
          is_space_def)
  show ?thesis
    using derivation_paths_fixed [OF t, of "fixture_env False" "''root_xsk''" "''main''"
        fixture_world] t c tr
    by simp
qed



text \<open>
  Claim C10. A network name outside the four known ones gets the tag 1, the tag of
  \<^verbatim>\<open>mainnet\<close>, without any error: every address construction that takes a network
  tag hands the tool \<^verbatim>\<open>--network-tag 1\<close> for it, and is the same computation as for
  \<^verbatim>\<open>mainnet\<close>.
\<close>

theorem unknown_network_is_mainnet:
  assumes unknown: "network \<notin> {''mainnet'', ''testnet'', ''preview'', ''preprod''}"
    and tool: "map_of (tools self) ''cardano-address'' = Some t"
  shows "network_tag network = network_tag ''mainnet''
     \<and> network_tag network = ''1''
     \<and> generate_payment_address E self pv sv network = generate_payment_address E self pv sv ''mainnet''
     \<and> generate_payment_only_address E self pv network = generate_payment_only_address E self pv ''mainnet''
     \<and> generate_staking_address E self sv network = generate_staking_address E self sv ''mainnet''
     \<and> generate_address_candidate E self pv sv network = generate_address_candidate E self pv sv ''mainnet''
     \<and> calls (snd (generate_payment_address E self pv sv network w))
         = calls w @ base_address_calls E t pv sv ''1'' (outside w)
     \<and> calls (snd (generate_payment_only_address E self pv network w))
         = calls w @ [([t, ''address'', ''payment'', ''--network-tag'', ''1''], Some pv)]
     \<and> calls (snd (generate_staking_address E self sv network w))
         = calls w @ [([t, ''address'', ''stake'', ''--network-tag'', ''1''], Some sv)]
     \<and> calls (snd (generate_address_candidate E self pv sv network w))
         = calls w @ base_address_calls E t pv sv ''1'' (outside w)"
proof -
  have u: "network_tag network = ''1''" using unknown by (rule network_tag_unknown)
  have m: "network_tag ''mainnet'' = ''1''" by (rule network_tag_values)
  have same: "generate_payment_address E self pv sv network = generate_payment_address E self pv sv ''mainnet''
     \<and> generate_payment_only_address E self pv network = generate_payment_only_address E self pv ''mainnet''
     \<and> generate_staking_address E self sv network = generate_staking_address E self sv ''mainnet''
     \<and> generate_address_candidate E self pv sv network = generate_address_candidate E self pv sv ''mainnet''"
    unfolding generate_payment_address_def generate_payment_only_address_def
      generate_staking_address_def generate_address_candidate_def u m
    by simp
  have traces: "calls (snd (generate_payment_address E self pv sv network w))
         = calls w @ base_address_calls E t pv sv ''1'' (outside w)
     \<and> calls (snd (generate_payment_only_address E self pv network w))
         = calls w @ [([t, ''address'', ''payment'', ''--network-tag'', ''1''], Some pv)]
     \<and> calls (snd (generate_staking_address E self sv network w))
         = calls w @ [([t, ''address'', ''stake'', ''--network-tag'', ''1''], Some sv)]
     \<and> calls (snd (generate_address_candidate E self pv sv network w))
         = calls w @ base_address_calls E t pv sv ''1'' (outside w)"
    by (simp add: staking_address_calls [OF tool] payment_only_address_calls [OF tool]
          payment_address_calls [OF tool] address_candidate_calls [OF tool] u)
  show ?thesis using u m same traces by (intro conjI) simp_all
qed

theorem unknown_network_is_mainnet_witness:
  "''mainet'' \<notin> {''mainnet'', ''testnet'', ''preview'', ''preprod''}
   \<and> map_of (tools fixture_self) ''cardano-address'' = Some ''/bin/cardano-address''
   \<and> network_tag ''mainet'' = ''1''
   \<and> calls (snd (generate_payment_only_address (fixture_env False) fixture_self ''pv''
         ''mainet'' fixture_world))
       = [([''/bin/cardano-address'', ''address'', ''payment'', ''--network-tag'', ''1''],
           Some ''pv'')]
   \<and> calls (snd (generate_staking_address (fixture_env False) fixture_self ''sv''
         ''mainet'' fixture_world))
       = [([''/bin/cardano-address'', ''address'', ''stake'', ''--network-tag'', ''1''],
           Some ''sv'')]
   \<and> calls (snd (generate_payment_address (fixture_env False) fixture_self ''pv'' ''sv''
         ''mainet'' fixture_world))
       = [([''/bin/cardano-address'', ''address'', ''payment'', ''--network-tag'', ''1''],
           Some ''pv''),
          ([''/bin/cardano-address'', ''address'', ''stake'', ''--network-tag'', ''1''],
           Some ''sv''),
          ([''/bin/cardano-address'', ''address'', ''delegation'', ''sv''],
           Some ''addr1vpayment'')]"
proof -
  have n: "''mainet'' \<notin> {''mainnet'', ''testnet'', ''preview'', ''preprod''}" by simp
  have t: "map_of (tools fixture_self) ''cardano-address'' = Some ''/bin/cardano-address''"
    by (simp add: fixture_self_def)
  have w: "calls fixture_world = []" "outside fixture_world = 0"
    by (simp_all add: fixture_world_def)
  note u = unknown_network_is_mainnet [OF n t, of "fixture_env False" "''pv''" "''sv''"
      fixture_world]
  note tr = u [THEN conjunct2, THEN conjunct2, THEN conjunct2, THEN conjunct2,
      THEN conjunct2, THEN conjunct2]
  have a: "network_tag ''mainet'' = ''1''" using u by (elim conjE)
  have b: "calls (snd (generate_payment_only_address (fixture_env False) fixture_self ''pv''
         ''mainet'' fixture_world))
       = [([''/bin/cardano-address'', ''address'', ''payment'', ''--network-tag'', ''1''],
           Some ''pv'')]"
    using tr w by simp
  have c: "calls (snd (generate_staking_address (fixture_env False) fixture_self ''sv''
         ''mainet'' fixture_world))
       = [([''/bin/cardano-address'', ''address'', ''stake'', ''--network-tag'', ''1''],
           Some ''sv'')]"
    using tr w by simp
  have d: "calls (snd (generate_payment_address (fixture_env False) fixture_self ''pv'' ''sv''
         ''mainet'' fixture_world))
       = [([''/bin/cardano-address'', ''address'', ''payment'', ''--network-tag'', ''1''],
           Some ''pv''),
          ([''/bin/cardano-address'', ''address'', ''stake'', ''--network-tag'', ''1''],
           Some ''sv''),
          ([''/bin/cardano-address'', ''address'', ''delegation'', ''sv''],
           Some ''addr1vpayment'')]"
    using tr w by (simp add: base_address_calls_fixture)
  show ?thesis using n t a b c d by (intro conjI)
qed

end
